theory Spec2Isabelle
  imports Complex_Main "HOL-Library.Multiset"
begin

section \<open>Values held by a table\<close>

text \<open>
  The two dashboard scripts (\<^verbatim>\<open>0003.py\<close> and \<^verbatim>\<open>kurly_dash_2.py\<close>) read a CSV file into a
  pandas DataFrame and pass it to \<^verbatim>\<open>enrich_df\<close>. The Korean column headers are written here in
  romanised form: \<open>Wol\<close> is the period label (month), \<open>Maechul\<close> the revenue, \<open>Jeonnyeon\<close> the
  revenue of the same month one year before, \<open>Jeunggam\<close> the percent change, \<open>Date\<close> the helper
  column \<^verbatim>\<open>_date\<close> and \<open>Bungi\<close> the quarter.
\<close>

datatype column = Wol | Maechul | Jeonnyeon | Jeunggam | Date | Bungi

text \<open>A Python \<^verbatim>\<open>str\<close> is the list of its code points; \<open>ascii\<close> writes one from ASCII text.\<close>

type_synonym pystr = "nat list"

definition ascii :: "string \<Rightarrow> pystr" where
  "ascii s = map of_char s"

text \<open>
  A cell of an uploaded numeric column is empty (NaN), a finite number, or text that the CSV
  reader could not read as a number. A number is the exact rational that the cell holds.
  Infinite cells and columns that the CSV reader types as boolean are not part of the model.
\<close>

datatype cell = Empty | Num rat | Str pystr

text \<open>
  A value of the revenue columns after the coercion is a finite number or NaN (\<open>None\<close> of a
  \<open>rat option\<close>). The percent column holds the float64 results of an arithmetic expression,
  which may also be infinite: the wider type \<open>flt\<close>.
\<close>

datatype flt = NaN | NegInf | Fin rat | PosInf

text \<open>A time stamp parsed with the format \<^verbatim>\<open>%Y-%m\<close> is the first day of a month.\<close>

datatype timestamp = Timestamp (year: nat) (month: nat)

datatype error = KeyError column | RowKeyError nat | ValueError | TypeError

text \<open>
  What the scripts take from the library and what differs between its versions or depends on
  the dtype of a column is a parameter of the model:
  \<^item> \<open>str2num\<close> is how \<^verbatim>\<open>pd.to_numeric\<close> reads a number from text (\<open>None\<close> when it cannot);
  \<^item> \<open>na_label\<close> is what \<^verbatim>\<open>astype(str)\<close> makes of a missing period label: the text \<^verbatim>\<open>nan\<close> in
    pandas 2, still a missing value in pandas 3;
  \<^item> \<open>pct_arith x y\<close> is the float64 value that the library computes for
    \<^verbatim>\<open>(x - y) / y * 100\<close> in a row where the revenue \<open>x\<close> and the prior revenue \<open>y\<close> are both
    present. It is not the exact quotient: on two int64 columns the subtraction wraps around,
    on float64 columns every operation rounds, and a division by zero gives an infinity or
    NaN.
\<close>

record lib =
  str2num :: "pystr \<Rightarrow> rat option"
  na_label :: "pystr option"
  pct_arith :: "rat \<Rightarrow> rat \<Rightarrow> flt"

text \<open>
  A table has its column headers and its rows; a row's position is its row label (a
  \<^verbatim>\<open>RangeIndex\<close>). The rows of an upload hold the period label as text (or nothing) and the
  three numeric cells; the cell of a column that the table does not have is never read.
  Further columns of an upload are carried along unchanged and are left out. After lines
  102-103 of \<^verbatim>\<open>0003.py\<close> a row holds its trimmed label and its date (\<open>keyed_row\<close>), after the
  coercion of the numeric columns it holds numbers (\<open>row\<close>).
\<close>

record 'r frame =
  columns :: "column list"
  rows :: "'r list"

record raw_row =
  r_wol :: "pystr option"
  r_maechul :: cell
  r_jeonnyeon :: cell
  r_jeunggam :: cell

record keyed_row =
  k_wol :: "pystr option"
  k_date :: "timestamp option"
  k_maechul :: cell
  k_jeonnyeon :: cell
  k_jeunggam :: cell

record row =
  wol :: "pystr option"
  date :: "timestamp option"
  maechul :: "rat option"
  jeonnyeon :: "rat option"
  jeunggam :: flt
  bungi :: "nat option"


section \<open>Library operations used by \<^verbatim>\<open>enrich_df\<close>\<close>

text \<open>\<^verbatim>\<open>Series.astype(str)\<close> leaves text as it is; what it makes of a missing value depends on
  the version of the library.\<close>

definition astype_str :: "lib \<Rightarrow> pystr option \<Rightarrow> pystr option" where
  "astype_str L v = (case v of None \<Rightarrow> na_label L | Some s \<Rightarrow> Some s)"

text \<open>
  \<^verbatim>\<open>str.strip()\<close> removes white space at both ends. White space is what \<^verbatim>\<open>str.isspace\<close> accepts:
  U+0009 to U+000D, U+001C to U+0020, U+0085, U+00A0, U+1680, U+2000 to U+200A, U+2028,
  U+2029, U+202F, U+205F and U+3000. \<^verbatim>\<open>Series.str.strip()\<close> keeps a missing value.
\<close>

definition isspace :: "nat \<Rightarrow> bool" where
  "isspace c =
     ((9 \<le> c \<and> c \<le> 13) \<or> (28 \<le> c \<and> c \<le> 32) \<or> c = 133 \<or> c = 160 \<or> c = 5760
      \<or> (8192 \<le> c \<and> c \<le> 8202) \<or> c = 8232 \<or> c = 8233 \<or> c = 8239 \<or> c = 8287
      \<or> c = 12288)"

definition py_strip :: "pystr \<Rightarrow> pystr" where
  "py_strip s = rev (dropWhile isspace (rev (dropWhile isspace s)))"

definition strip :: "pystr option \<Rightarrow> pystr option" where
  "strip v = map_option py_strip v"

text \<open>
  \<^verbatim>\<open>pd.to_datetime(..., format="%Y-%m", errors="coerce")\<close>: the whole text has to match four
  digits, a hyphen and a month written \<^verbatim>\<open>1[0-2]\<close>, \<^verbatim>\<open>0[1-9]\<close> or \<^verbatim>\<open>[1-9]\<close>; anything else, and a
  missing value, is NaT (\<open>None\<close>). The range of years that a nanosecond time stamp can hold
  is not modelled.
\<close>

definition isdigit :: "nat \<Rightarrow> bool" where
  "isdigit c = (48 \<le> c \<and> c \<le> 57)"

definition digit :: "nat \<Rightarrow> nat" where
  "digit c = c - 48"

definition strp_month :: "pystr \<Rightarrow> nat option" where
  "strp_month s =
     (case s of
        [d] \<Rightarrow> if isdigit d \<and> digit d \<noteq> 0 then Some (digit d) else None
      | [d1, d2] \<Rightarrow>
          if d1 = of_char (CHR ''1'') \<and> isdigit d2 \<and> digit d2 \<le> 2 then Some (10 + digit d2)
          else if d1 = of_char (CHR ''0'') \<and> isdigit d2 \<and> digit d2 \<noteq> 0 then Some (digit d2)
          else None
      | _ \<Rightarrow> None)"

definition strptime :: "pystr \<Rightarrow> timestamp option" where
  "strptime s =
     (case s of
        y1 # y2 # y3 # y4 # sep # ms \<Rightarrow>
          if isdigit y1 \<and> isdigit y2 \<and> isdigit y3 \<and> isdigit y4 \<and> sep = of_char (CHR ''-'')
          then map_option
                 (Timestamp (1000 * digit y1 + 100 * digit y2 + 10 * digit y3 + digit y4))
                 (strp_month ms)
          else None
      | _ \<Rightarrow> None)"

definition to_datetime :: "pystr option \<Rightarrow> timestamp option" where
  "to_datetime v = (case v of None \<Rightarrow> None | Some s \<Rightarrow> strptime s)"

text \<open>The order of time stamps, as the number of months since year 0.\<close>

definition ordinal :: "timestamp \<Rightarrow> nat" where
  "ordinal t = 12 * year t + (month t - 1)"

text \<open>\<^verbatim>\<open>Series.dt.quarter\<close>: NaT has no quarter.\<close>

definition quarter :: "timestamp option \<Rightarrow> nat option" where
  "quarter d = map_option (\<lambda>t. (month t - 1) div 3 + 1) d"

text \<open>\<^verbatim>\<open>pd.to_numeric(..., errors="coerce")\<close>: an empty cell and text that does not read as a
  number become NaN.\<close>

definition to_numeric :: "lib \<Rightarrow> cell \<Rightarrow> rat option" where
  "to_numeric L c = (case c of Empty \<Rightarrow> None | Num q \<Rightarrow> Some q | Str s \<Rightarrow> str2num L s)"

definition to_flt :: "rat option \<Rightarrow> flt" where
  "to_flt v = (case v of None \<Rightarrow> NaN | Some q \<Rightarrow> Fin q)"

definition isna :: "flt \<Rightarrow> bool" where
  "isna v = (v = NaN)"

definition ne0 :: "rat option \<Rightarrow> bool" where
  "ne0 v = (v \<noteq> Some 0)"

definition fillna0 :: "flt \<Rightarrow> flt" where
  "fillna0 v = (if v = NaN then Fin 0 else v)"

definition add_col :: "column \<Rightarrow> column list \<Rightarrow> column list" where
  "add_col c cs = (if c \<in> set cs then cs else cs @ [c])"


section \<open>\<^verbatim>\<open>enrich_df\<close>\<close>

text \<open>Lines 102-103 of \<^verbatim>\<open>0003.py\<close> (113-115 of \<^verbatim>\<open>kurly_dash_2.py\<close>): the label is turned into
  text and trimmed, and the sort key \<^verbatim>\<open>_date\<close> is parsed from it. Reading a column that the
  table does not have raises \<^verbatim>\<open>KeyError\<close>.\<close>

definition key_row :: "lib \<Rightarrow> raw_row \<Rightarrow> keyed_row" where
  "key_row L r =
     (let s = strip (astype_str L (r_wol r)) in
      \<lparr>k_wol = s, k_date = to_datetime s, k_maechul = r_maechul r,
       k_jeonnyeon = r_jeonnyeon r, k_jeunggam = r_jeunggam r\<rparr>)"

definition label_and_date :: "lib \<Rightarrow> raw_row frame \<Rightarrow> error + keyed_row frame" where
  "label_and_date L df =
     (if Wol \<notin> set (columns df) then Inl (KeyError Wol)
      else Inr \<lparr>columns = add_col Date (columns df), rows = map (key_row L) (rows df)\<rparr>)"

text \<open>
  \<^verbatim>\<open>df.sort_values("_date").reset_index(drop=True)\<close>: the rows with a date are sorted by it and
  the rows without one follow in their old order, as pandas' \<^verbatim>\<open>nargsort\<close> puts them; the new
  row labels are the positions. The order that the library's quicksort gives to rows with
  equal dates is not specified; the model keeps their old order.
\<close>

definition date_ord :: "keyed_row \<Rightarrow> nat" where
  "date_ord r = (case k_date r of None \<Rightarrow> 0 | Some t \<Rightarrow> ordinal t)"

definition sort_values :: "keyed_row frame \<Rightarrow> keyed_row frame" where
  "sort_values df =
     df\<lparr>rows := sort_key date_ord (filter (\<lambda>r. k_date r \<noteq> None) (rows df))
                 @ filter (\<lambda>r. k_date r = None) (rows df)\<rparr>"

text \<open>Lines 105-110 (118-123): the numeric columns are coerced; the percent column is coerced
  when the table has one and is all NaN otherwise.\<close>

definition coerce_row :: "lib \<Rightarrow> bool \<Rightarrow> keyed_row \<Rightarrow> row" where
  "coerce_row L has_pct r =
     \<lparr>wol = k_wol r, date = k_date r,
      maechul = to_numeric L (k_maechul r),
      jeonnyeon = to_numeric L (k_jeonnyeon r),
      jeunggam = (if has_pct then to_flt (to_numeric L (k_jeunggam r)) else NaN),
      bungi = None\<rparr>"

definition coerce_numeric :: "lib \<Rightarrow> keyed_row frame \<Rightarrow> error + row frame" where
  "coerce_numeric L df =
     (if Maechul \<notin> set (columns df) then Inl (KeyError Maechul)
      else if Jeonnyeon \<notin> set (columns df) then Inl (KeyError Jeonnyeon)
      else Inr \<lparr>columns = add_col Jeunggam (columns df),
                rows = map (coerce_row L (Jeunggam \<in> set (columns df))) (rows df)\<rparr>)"

text \<open>The expression \<^verbatim>\<open>(revenue - prior) / prior * 100\<close> on one row: NaN when the revenue or
  the prior revenue is NaN, and the value that the library's arithmetic gives otherwise.\<close>

definition pct_expr :: "lib \<Rightarrow> row \<Rightarrow> flt" where
  "pct_expr L r =
     (case (maechul r, jeonnyeon r) of
        (Some x, Some y) \<Rightarrow> pct_arith L x y
      | _ \<Rightarrow> NaN)"

text \<open>
  \<^verbatim>\<open>df.loc[mask, ...]\<close> on the right-hand side selects the rows of the mask and keeps their row
  labels, so the computed Series is a list of labelled values (\<open>pct_series\<close>).

  \<^verbatim>\<open>df.loc[mask, "col"] = series\<close> with a target mask that selects some row aligns the Series
  on the row labels: each selected row takes the value with its own label, or NaN when the
  Series has none. With a target mask that selects no row the library does not align
  (\<^verbatim>\<open>_align_series\<close> returns the values as they are when the target index is empty) and then
  sets the values into the zero selected rows: nothing is written when the Series has no
  value, one value, or as many values as the table has rows, and in every other case the
  assignment raises \<^verbatim>\<open>ValueError\<close> (\<^verbatim>\<open>Must have equal len keys and value when setting with an
  iterable\<close>).
\<close>

definition pct_series :: "lib \<Rightarrow> bool list \<Rightarrow> row list \<Rightarrow> (nat \<times> flt) list" where
  "pct_series L sel rs =
     map (\<lambda>i. (i, pct_expr L (rs ! i))) (filter (\<lambda>i. sel ! i) [0..<length rs])"

definition align :: "(nat \<times> flt) list \<Rightarrow> nat \<Rightarrow> flt" where
  "align ser i = (case map_of ser i of None \<Rightarrow> NaN | Some v \<Rightarrow> v)"

definition loc_assign :: "bool list \<Rightarrow> (nat \<times> flt) list \<Rightarrow> row list \<Rightarrow> error + row list" where
  "loc_assign sel ser rs =
     (if list_ex (\<lambda>i. sel ! i) [0..<length rs]
      then Inr (map (\<lambda>i. if sel ! i then (rs ! i)\<lparr>jeunggam := align ser i\<rparr> else rs ! i)
                  [0..<length rs])
      else if length ser = 0 \<or> length ser = 1 \<or> length ser = length rs then Inr rs
      else Inl ValueError)"

definition missing_mask :: "row list \<Rightarrow> bool list" where
  "missing_mask rs = map (\<lambda>r. isna (jeunggam r)) rs"

definition valid_mask :: "row list \<Rightarrow> bool list" where
  "valid_mask rs = map (\<lambda>(m, r). m \<and> ne0 (jeonnyeon r)) (zip (missing_mask rs) rs)"

text \<open>Lines 111-115 of \<^verbatim>\<open>0003.py\<close>: both sides of the assignment use \<^verbatim>\<open>valid_mask\<close>.\<close>

definition backfill_0003 :: "lib \<Rightarrow> row frame \<Rightarrow> error + row frame" where
  "backfill_0003 L df =
     (case loc_assign (valid_mask (rows df)) (pct_series L (valid_mask (rows df)) (rows df))
             (rows df) of
        Inl e \<Rightarrow> Inl e
      | Inr rs \<Rightarrow> Inr (df\<lparr>rows := rs\<rparr>))"

text \<open>Lines 125-128 of \<^verbatim>\<open>kurly_dash_2.py\<close>: the target is \<^verbatim>\<open>missing_mask & prior.ne(0)\<close>, the
  right-hand side is computed on all rows of \<^verbatim>\<open>missing_mask\<close>.\<close>

definition backfill_kurly :: "lib \<Rightarrow> row frame \<Rightarrow> error + row frame" where
  "backfill_kurly L df =
     (case loc_assign (valid_mask (rows df)) (pct_series L (missing_mask (rows df)) (rows df))
             (rows df) of
        Inl e \<Rightarrow> Inl e
      | Inr rs \<Rightarrow> Inr (df\<lparr>rows := rs\<rparr>))"

text \<open>Lines 116-117 (129-131): the remaining NaN become 0 and the quarter is read off the date.\<close>

definition fillna_quarter :: "row frame \<Rightarrow> row frame" where
  "fillna_quarter df =
     \<lparr>columns = add_col Bungi (columns df),
      rows = map (\<lambda>r. r\<lparr>bungi := quarter (date r)\<rparr>)
               (map (\<lambda>r. r\<lparr>jeunggam := fillna0 (jeunggam r)\<rparr>) (rows df))\<rparr>"

definition enrich_df_0003 :: "lib \<Rightarrow> raw_row frame \<Rightarrow> error + row frame" where
  "enrich_df_0003 L df =
     (case label_and_date L df of
        Inl e \<Rightarrow> Inl e
      | Inr keyed \<Rightarrow>
          (case coerce_numeric L (sort_values keyed) of
             Inl e \<Rightarrow> Inl e
           | Inr nums \<Rightarrow>
               (case backfill_0003 L nums of
                  Inl e \<Rightarrow> Inl e
                | Inr filled \<Rightarrow> Inr (fillna_quarter filled))))"

definition enrich_df_kurly :: "lib \<Rightarrow> raw_row frame \<Rightarrow> error + row frame" where
  "enrich_df_kurly L df =
     (case label_and_date L df of
        Inl e \<Rightarrow> Inl e
      | Inr keyed \<Rightarrow>
          (case coerce_numeric L (sort_values keyed) of
             Inl e \<Rightarrow> Inl e
           | Inr nums \<Rightarrow>
               (case backfill_kurly L nums of
                  Inl e \<Rightarrow> Inl e
                | Inr filled \<Rightarrow> Inr (fillna_quarter filled))))"


section \<open>The summary cards\<close>

text \<open>
  \<^verbatim>\<open>Series.idxmax()\<close> and \<^verbatim>\<open>Series.idxmin()\<close> skip NaN and return the label of the first row
  that holds the extreme value. On a column without any value current pandas raises
  \<^verbatim>\<open>ValueError\<close>; older versions return NaN and the \<^verbatim>\<open>df.loc\<close> lookup that follows raises
  \<^verbatim>\<open>KeyError\<close>. In both cases the statement that asks for the card raises, which is what the
  model records.
\<close>

fun arg_scan ::
  "(rat \<Rightarrow> rat \<Rightarrow> bool) \<Rightarrow> nat \<Rightarrow> (nat \<times> rat) option \<Rightarrow> rat option list \<Rightarrow> (nat \<times> rat) option"
where
  "arg_scan better i best [] = best"
| "arg_scan better i best (None # vs) = arg_scan better (Suc i) best vs"
| "arg_scan better i best (Some v # vs) =
     arg_scan better (Suc i)
       (case best of
          None \<Rightarrow> Some (i, v)
        | Some (j, m) \<Rightarrow> if better v m then Some (i, v) else Some (j, m))
       vs"

definition idxmax :: "rat option list \<Rightarrow> error + nat" where
  "idxmax vals =
     (case arg_scan (\<lambda>v m. m < v) 0 None vals of None \<Rightarrow> Inl ValueError | Some (i, m) \<Rightarrow> Inr i)"

definition idxmin :: "rat option list \<Rightarrow> error + nat" where
  "idxmin vals =
     (case arg_scan (\<lambda>v m. v < m) 0 None vals of None \<Rightarrow> Inl ValueError | Some (i, m) \<Rightarrow> Inr i)"

definition notna_any :: "rat option list \<Rightarrow> bool" where
  "notna_any vals = list_ex (\<lambda>v. v \<noteq> None) vals"

text \<open>\<^verbatim>\<open>np.nansum\<close> and \<^verbatim>\<open>Series.sum()\<close> add the values that are present; \<^verbatim>\<open>int()\<close> truncates
  towards zero. The total is the exact sum of the finite revenues of the model: the rounding
  of a float64 sum and the wrap-around of an int64 sum are not modelled.\<close>

definition nansum :: "rat option list \<Rightarrow> rat" where
  "nansum vals = sum_list (map (\<lambda>v. case v of None \<Rightarrow> 0 | Some q \<Rightarrow> q) vals)"

definition py_int :: "rat \<Rightarrow> int" where
  "py_int q = (if 0 \<le> q then \<lfloor>q\<rfloor> else \<lceil>q\<rceil>)"

text \<open>A card shows a dash, or the period label and the revenue of a row (the label may be a
  missing value).\<close>

datatype card = Dash | LabelValue "pystr option" "rat option"

datatype widget = ErrorBox error | TotalCard int | AvgCard | MaxCard card | MinCard card | Charts

text \<open>\<^verbatim>\<open>df.loc[i, ...]\<close> on the positional row labels; the card shows the label and the revenue
  of that row.\<close>

definition card_at :: "row frame \<Rightarrow> nat \<Rightarrow> error + card" where
  "card_at df i =
     (if i < length (rows df)
      then Inr (LabelValue (wol (rows df ! i)) (maechul (rows df ! i)))
      else Inl (RowKeyError i))"

text \<open>
  A run of the page is the list of widgets drawn so far and the exception that ended the
  run, if any. The card with the mean percent change (it cannot raise) carries no value here,
  and the four charts that follow the cards are one widget.

  Lines 140-159 of \<^verbatim>\<open>0003.py\<close>: the indices are computed only when some revenue is present.
\<close>

definition metrics_0003 :: "row frame \<Rightarrow> widget list \<times> error option" where
  "metrics_0003 df =
     (let vals = map maechul (rows df);
          shown = [TotalCard (py_int (nansum vals)), AvgCard]
      in case (if notna_any vals then map_sum id Some (idxmax vals) else Inr None) of
           Inl e \<Rightarrow> (shown, Some e)
         | Inr max_idx \<Rightarrow>
        (case (if notna_any vals then map_sum id Some (idxmin vals) else Inr None) of
           Inl e \<Rightarrow> (shown, Some e)
         | Inr min_idx \<Rightarrow>
        (case (case max_idx of None \<Rightarrow> Inr Dash | Some i \<Rightarrow> card_at df i) of
           Inl e \<Rightarrow> (shown, Some e)
         | Inr c3 \<Rightarrow>
        (case (case min_idx of None \<Rightarrow> Inr Dash | Some i \<Rightarrow> card_at df i) of
           Inl e \<Rightarrow> (shown @ [MaxCard c3], Some e)
         | Inr c4 \<Rightarrow> (shown @ [MaxCard c3, MinCard c4, Charts], None)))))"

text \<open>Lines 158-170 of \<^verbatim>\<open>kurly_dash_2.py\<close>: the indices are computed without a guard.\<close>

definition metrics_kurly :: "row frame \<Rightarrow> widget list \<times> error option" where
  "metrics_kurly df =
     (let vals = map maechul (rows df);
          shown = [TotalCard (py_int (nansum vals)), AvgCard]
      in case idxmax vals of
           Inl e \<Rightarrow> (shown, Some e)
         | Inr max_idx \<Rightarrow>
        (case card_at df max_idx of
           Inl e \<Rightarrow> (shown, Some e)
         | Inr c3 \<Rightarrow>
        (case idxmin vals of
           Inl e \<Rightarrow> (shown @ [MaxCard c3], Some e)
         | Inr min_idx \<Rightarrow>
        (case card_at df min_idx of
           Inl e \<Rightarrow> (shown @ [MaxCard c3], Some e)
         | Inr c4 \<Rightarrow> (shown @ [MaxCard c3, MinCard c4, Charts], None)))))"


definition script_kurly :: "lib \<Rightarrow> raw_row frame \<Rightarrow> widget list \<times> error option" where
  "script_kurly L df_raw =
     (case enrich_df_kurly L df_raw of
        Inl e \<Rightarrow> ([ErrorBox e], None)
      | Inr df \<Rightarrow> metrics_kurly df)"


section \<open>\<^verbatim>\<open>enrich_df\<close> on a heap of tables\<close>

text \<open>
  A DataFrame is a mutable object. The heap is the list of the objects that exist, an object's
  address is its position. \<^verbatim>\<open>df = df.copy()\<close> allocates a new object and binds the local name
  to it, the column assignments of lines 102-103 write into that object,
  \<^verbatim>\<open>sort_values(...).reset_index(drop=True)\<close> allocates the sorted table and rebinds the name,
  and the remaining assignments write into the sorted table, which is returned. The two
  scripts differ in the back-fill step only, which is the parameter \<open>backfill\<close>. When an
  exception ends the call, the object that was being written keeps the state it had before
  the failing stage.
\<close>

datatype obj = Raw "raw_row frame" | Keyed "keyed_row frame" | Enriched "row frame"

definition alloc :: "obj \<Rightarrow> obj list \<Rightarrow> nat \<times> obj list" where
  "alloc x h = (length h, h @ [x])"

definition enrich_df_heap ::
  "(lib \<Rightarrow> row frame \<Rightarrow> error + row frame) \<Rightarrow> lib \<Rightarrow> nat \<Rightarrow> obj list \<Rightarrow> (error + nat) \<times> obj list"
where
  "enrich_df_heap backfill L a h =
     (if a < length h then
        (case h ! a of
           Raw df0 \<Rightarrow>
             (let (b, h1) = alloc (Raw df0) h in
              case label_and_date L df0 of
                Inl e \<Rightarrow> (Inl e, h1)
              | Inr keyed \<Rightarrow>
                  (let h2 = h1[b := Keyed keyed];
                       (c, h3) = alloc (Keyed (sort_values keyed)) h2 in
                   case coerce_numeric L (sort_values keyed) of
                     Inl e \<Rightarrow> (Inl e, h3)
                   | Inr nums \<Rightarrow>
                       (let h4 = h3[c := Enriched nums] in
                        case backfill L nums of
                          Inl e \<Rightarrow> (Inl e, h4)
                        | Inr filled \<Rightarrow>
                            (let h5 = h4[c := Enriched filled];
                                 h6 = h5[c := Enriched (fillna_quarter filled)]
                             in (Inr c, h6)))))
         | _ \<Rightarrow> (Inl TypeError, h))
      else (Inl TypeError, h))"


section \<open>Auxiliary definitions\<close>

text \<open>What the back-fill step does to one row when the assignment does not raise.\<close>

definition backfill_row :: "lib \<Rightarrow> row \<Rightarrow> row" where
  "backfill_row L r =
     (if isna (jeunggam r) \<and> ne0 (jeonnyeon r) then r\<lparr>jeunggam := pct_expr L r\<rparr> else r)"

definition finish_row :: "row \<Rightarrow> row" where
  "finish_row r = r\<lparr>jeunggam := fillna0 (jeunggam r), bungi := quarter (date r)\<rparr>"

definition enrich_row :: "lib \<Rightarrow> bool \<Rightarrow> raw_row \<Rightarrow> row" where
  "enrich_row L has_pct raw =
     finish_row (backfill_row L (coerce_row L has_pct (key_row L raw)))"

text \<open>The order of two sort keys: dates by year and month, a missing date after every date.\<close>

definition date_le :: "timestamp option \<Rightarrow> timestamp option \<Rightarrow> bool" where
  "date_le a b =
     (case (a, b) of
        (Some s, Some t) \<Rightarrow> year s < year t \<or> (year s = year t \<and> month s \<le> month t)
      | (None, Some t) \<Rightarrow> False
      | _ \<Rightarrow> True)"

text \<open>
  A sample library for the examples. It reads unsigned whole numbers, it turns a missing
  label into the text \<^verbatim>\<open>nan\<close> as pandas 2 does, and it computes the percent expression exactly,
  with an infinity for a division by zero; on the values of the examples below float64
  arithmetic gives these exact results.
\<close>

definition str2num_digits :: "pystr \<Rightarrow> rat option" where
  "str2num_digits s =
     (if s \<noteq> [] \<and> list_all isdigit s
      then Some (of_nat (foldl (\<lambda>n c. 10 * n + digit c) 0 s))
      else None)"

definition sample_lib :: lib where
  "sample_lib =
     \<lparr>str2num = str2num_digits,
      na_label = Some (ascii ''nan''),
      pct_arith = (\<lambda>x y. if y = 0 then (if 0 < x then PosInf else if x < 0 then NegInf else NaN)
                          else Fin ((x - y) / y * 100))\<rparr>"

text \<open>A sample upload without a percent column, and the table that \<^verbatim>\<open>enrich_df\<close> makes of it.\<close>

definition sample_df :: "raw_row frame" where
  "sample_df =
     \<lparr>columns = [Wol, Maechul, Jeonnyeon],
      rows = [\<lparr>r_wol = Some (ascii ''2024-03 ''), r_maechul = Str (ascii ''11''),
               r_jeonnyeon = Num 0, r_jeunggam = Empty\<rparr>,
              \<lparr>r_wol = Some (ascii ''abc''), r_maechul = Str (ascii ''x''),
               r_jeonnyeon = Num 100, r_jeunggam = Empty\<rparr>,
              \<lparr>r_wol = Some (ascii ''2024-01''), r_maechul = Str (ascii ''12''),
               r_jeonnyeon = Num 10, r_jeunggam = Empty\<rparr>]\<rparr>"

definition sample_out :: "row frame" where
  "sample_out =
     \<lparr>columns = [Wol, Maechul, Jeonnyeon, Date, Jeunggam, Bungi],
      rows = [\<lparr>wol = Some (ascii ''2024-01''), date = Some (Timestamp 2024 1), maechul = Some 12,
               jeonnyeon = Some 10, jeunggam = Fin 20, bungi = Some 1\<rparr>,
              \<lparr>wol = Some (ascii ''2024-03''), date = Some (Timestamp 2024 3), maechul = Some 11,
               jeonnyeon = Some 0, jeunggam = Fin 0, bungi = Some 1\<rparr>,
              \<lparr>wol = Some (ascii ''abc''), date = None, maechul = None,
               jeonnyeon = Some 100, jeunggam = Fin 0, bungi = None\<rparr>]\<rparr>"

text \<open>A sample upload with a percent column: a supplied value, text that is not a number
  and an empty cell.\<close>

definition sample_pct_df :: "raw_row frame" where
  "sample_pct_df =
     \<lparr>columns = [Wol, Maechul, Jeonnyeon, Jeunggam],
      rows = [\<lparr>r_wol = Some (ascii ''2024-01''), r_maechul = Num 12, r_jeonnyeon = Num 10,
               r_jeunggam = Str (ascii ''7'')\<rparr>,
              \<lparr>r_wol = Some (ascii ''2024-02''), r_maechul = Num 12, r_jeonnyeon = Num 10,
               r_jeunggam = Str (ascii ''x'')\<rparr>,
              \<lparr>r_wol = Some (ascii ''2024-03''), r_maechul = Num 11, r_jeonnyeon = Num 0,
               r_jeunggam = Empty\<rparr>]\<rparr>"

definition sample_pct_out :: "row frame" where
  "sample_pct_out =
     \<lparr>columns = [Wol, Maechul, Jeonnyeon, Jeunggam, Date, Bungi],
      rows = [\<lparr>wol = Some (ascii ''2024-01''), date = Some (Timestamp 2024 1), maechul = Some 12,
               jeonnyeon = Some 10, jeunggam = Fin 7, bungi = Some 1\<rparr>,
              \<lparr>wol = Some (ascii ''2024-02''), date = Some (Timestamp 2024 2), maechul = Some 12,
               jeonnyeon = Some 10, jeunggam = Fin 20, bungi = Some 1\<rparr>,
              \<lparr>wol = Some (ascii ''2024-03''), date = Some (Timestamp 2024 3), maechul = Some 11,
               jeonnyeon = Some 0, jeunggam = Fin 0, bungi = Some 1\<rparr>]\<rparr>"

text \<open>An upload with the same month twice.\<close>

definition dup_df :: "raw_row frame" where
  "dup_df =
     \<lparr>columns = [Wol, Maechul, Jeonnyeon],
      rows = [\<lparr>r_wol = Some (ascii ''2024-01''), r_maechul = Num 1, r_jeonnyeon = Num 1,
               r_jeunggam = Empty\<rparr>,
              \<lparr>r_wol = Some (ascii ''2024-01''), r_maechul = Num 2, r_jeonnyeon = Num 1,
               r_jeunggam = Empty\<rparr>]\<rparr>"

definition dup_out :: "row frame" where
  "dup_out =
     \<lparr>columns = [Wol, Maechul, Jeonnyeon, Date, Jeunggam, Bungi],
      rows = [\<lparr>wol = Some (ascii ''2024-01''), date = Some (Timestamp 2024 1), maechul = Some 1,
               jeonnyeon = Some 1, jeunggam = Fin 0, bungi = Some 1\<rparr>,
              \<lparr>wol = Some (ascii ''2024-01''), date = Some (Timestamp 2024 1), maechul = Some 2,
               jeonnyeon = Some 1, jeunggam = Fin 100, bungi = Some 1\<rparr>]\<rparr>"

text \<open>An upload whose two labels differ in a no-break space (U+00A0) at the end only.\<close>

definition nbsp_df :: "raw_row frame" where
  "nbsp_df =
     \<lparr>columns = [Wol, Maechul, Jeonnyeon],
      rows = [\<lparr>r_wol = Some (ascii ''2024-01''), r_maechul = Num 1, r_jeonnyeon = Num 1,
               r_jeunggam = Empty\<rparr>,
              \<lparr>r_wol = Some (ascii ''2024-01'' @ [160]), r_maechul = Num 2, r_jeonnyeon = Num 1,
               r_jeunggam = Empty\<rparr>]\<rparr>"



text \<open>
  Two uploads on which the target mask of the back-fill is empty while two of the three rows
  have no percent: the percent is supplied in the first row only and the prior revenue of
  the other two rows is 0. In the first upload the two cells are empty, in the second one of
  them holds text that is not a number. \<open>empty_target_out\<close> is what \<^verbatim>\<open>enrich_df\<close> of \<^verbatim>\<open>0003.py\<close>
  makes of either.
\<close>

definition empty_target_df :: "raw_row frame" where
  "empty_target_df =
     \<lparr>columns = [Wol, Maechul, Jeonnyeon, Jeunggam],
      rows = [\<lparr>r_wol = Some (ascii ''2024-01''), r_maechul = Num 12, r_jeonnyeon = Num 10,
               r_jeunggam = Num 7\<rparr>,
              \<lparr>r_wol = Some (ascii ''2024-02''), r_maechul = Num 11, r_jeonnyeon = Num 0,
               r_jeunggam = Empty\<rparr>,
              \<lparr>r_wol = Some (ascii ''2024-03''), r_maechul = Num 11, r_jeonnyeon = Num 0,
               r_jeunggam = Empty\<rparr>]\<rparr>"

definition unparsed_pct_df :: "raw_row frame" where
  "unparsed_pct_df =
     \<lparr>columns = [Wol, Maechul, Jeonnyeon, Jeunggam],
      rows = [\<lparr>r_wol = Some (ascii ''2024-01''), r_maechul = Num 12, r_jeonnyeon = Num 10,
               r_jeunggam = Str (ascii ''7'')\<rparr>,
              \<lparr>r_wol = Some (ascii ''2024-02''), r_maechul = Num 11, r_jeonnyeon = Num 0,
               r_jeunggam = Str (ascii ''x'')\<rparr>,
              \<lparr>r_wol = Some (ascii ''2024-03''), r_maechul = Num 11, r_jeonnyeon = Num 0,
               r_jeunggam = Empty\<rparr>]\<rparr>"

definition empty_target_out :: "row frame" where
  "empty_target_out =
     \<lparr>columns = [Wol, Maechul, Jeonnyeon, Jeunggam, Date, Bungi],
      rows = [\<lparr>wol = Some (ascii ''2024-01''), date = Some (Timestamp 2024 1), maechul = Some 12,
               jeonnyeon = Some 10, jeunggam = Fin 7, bungi = Some 1\<rparr>,
              \<lparr>wol = Some (ascii ''2024-02''), date = Some (Timestamp 2024 2), maechul = Some 11,
               jeonnyeon = Some 0, jeunggam = Fin 0, bungi = Some 1\<rparr>,
              \<lparr>wol = Some (ascii ''2024-03''), date = Some (Timestamp 2024 3), maechul = Some 11,
               jeonnyeon = Some 0, jeunggam = Fin 0, bungi = Some 1\<rparr>]\<rparr>"

text \<open>Two enriched tables: one without any revenue, one with equal revenues.\<close>

definition null_revenue_df :: "row frame" where
  "null_revenue_df =
     \<lparr>columns = [Wol, Maechul, Jeonnyeon, Date, Jeunggam, Bungi],
      rows = [\<lparr>wol = Some (ascii ''2024-01''), date = Some (Timestamp 2024 1), maechul = None,
               jeonnyeon = Some 4, jeunggam = Fin 0, bungi = Some 1\<rparr>,
              \<lparr>wol = Some (ascii ''2024-02''), date = Some (Timestamp 2024 2), maechul = None,
               jeonnyeon = None, jeunggam = Fin 0, bungi = Some 1\<rparr>]\<rparr>"

definition tie_df :: "row frame" where
  "tie_df =
     \<lparr>columns = [Wol, Maechul, Jeonnyeon, Date, Jeunggam, Bungi],
      rows = [\<lparr>wol = Some (ascii ''2024-01''), date = Some (Timestamp 2024 1), maechul = Some 5,
               jeonnyeon = None, jeunggam = Fin 0, bungi = Some 1\<rparr>,
              \<lparr>wol = Some (ascii ''2024-02''), date = Some (Timestamp 2024 2), maechul = None,
               jeonnyeon = None, jeunggam = Fin 0, bungi = Some 1\<rparr>,
              \<lparr>wol = Some (ascii ''2024-03''), date = Some (Timestamp 2024 3), maechul = Some 7,
               jeonnyeon = None, jeunggam = Fin 0, bungi = Some 1\<rparr>,
              \<lparr>wol = Some (ascii ''2024-04''), date = Some (Timestamp 2024 4), maechul = Some 7,
               jeonnyeon = None, jeunggam = Fin 0, bungi = Some 2\<rparr>,
              \<lparr>wol = Some (ascii ''2024-05''), date = Some (Timestamp 2024 5), maechul = Some 5,
               jeonnyeon = None, jeunggam = Fin 0, bungi = Some 2\<rparr>]\<rparr>"


section \<open>The back-fill step, row by row\<close>

lemma missing_mask_nth:
  "i < length rs \<Longrightarrow> missing_mask rs ! i = isna (jeunggam (rs ! i))"
  by (simp add: missing_mask_def)

lemma valid_mask_nth:
  "i < length rs \<Longrightarrow> valid_mask rs ! i = (isna (jeunggam (rs ! i)) \<and> ne0 (jeonnyeon (rs ! i)))"
  by (simp add: valid_mask_def missing_mask_def)

lemma align_pct_series:
  assumes "i < length rs" and "sel ! i"
  shows "align (pct_series L sel rs) i = pct_expr L (rs ! i)"
proof -
  have "map_of (pct_series L sel rs) i = Some (pct_expr L (rs ! i))"
    using assms by (simp add: pct_series_def map_of_map_restrict restrict_map_def)
  then show ?thesis by (simp add: align_def)
qed

lemma aligned_update:
  assumes "\<And>i. i < length rs \<Longrightarrow> valid_mask rs ! i \<Longrightarrow> sel ! i"
  shows "map (\<lambda>i. if valid_mask rs ! i
                  then (rs ! i)\<lparr>jeunggam := align (pct_series L sel rs) i\<rparr> else rs ! i)
           [0..<length rs]
         = map (backfill_row L) rs"
proof (rule nth_equalityI)
  show "length (map (\<lambda>i. if valid_mask rs ! i
                  then (rs ! i)\<lparr>jeunggam := align (pct_series L sel rs) i\<rparr> else rs ! i)
           [0..<length rs]) = length (map (backfill_row L) rs)"
    by simp
next
  fix i
  assume "i < length (map (\<lambda>i. if valid_mask rs ! i
                  then (rs ! i)\<lparr>jeunggam := align (pct_series L sel rs) i\<rparr> else rs ! i)
           [0..<length rs])"
  then have i: "i < length rs" by simp
  show "map (\<lambda>i. if valid_mask rs ! i
                  then (rs ! i)\<lparr>jeunggam := align (pct_series L sel rs) i\<rparr> else rs ! i)
           [0..<length rs] ! i
        = map (backfill_row L) rs ! i"
  proof (cases "valid_mask rs ! i")
    case True
    then have "align (pct_series L sel rs) i = pct_expr L (rs ! i)"
      using assms i align_pct_series by blast
    with True i show ?thesis
      by (simp add: backfill_row_def valid_mask_nth)
  next
    case False
    with i show ?thesis
      by (auto simp: backfill_row_def valid_mask_nth)
  qed
qed

lemma target_nonempty:
  "list_ex (\<lambda>i. valid_mask rs ! i) [0..<length rs]
     \<longleftrightarrow> (\<exists>r \<in> set rs. isna (jeunggam r) \<and> ne0 (jeonnyeon r))"
proof
  assume "list_ex (\<lambda>i. valid_mask rs ! i) [0..<length rs]"
  then obtain i where "i < length rs" "valid_mask rs ! i"
    by (auto simp: list_ex_iff)
  then have "rs ! i \<in> set rs" "isna (jeunggam (rs ! i)) \<and> ne0 (jeonnyeon (rs ! i))"
    by (simp_all add: valid_mask_nth)
  then show "\<exists>r \<in> set rs. isna (jeunggam r) \<and> ne0 (jeonnyeon r)" by blast
next
  assume "\<exists>r \<in> set rs. isna (jeunggam r) \<and> ne0 (jeonnyeon r)"
  then obtain i where "i < length rs" "isna (jeunggam (rs ! i)) \<and> ne0 (jeonnyeon (rs ! i))"
    by (auto simp: in_set_conv_nth)
  then have "i \<in> set [0..<length rs]" "valid_mask rs ! i"
    by (simp_all add: valid_mask_nth)
  then show "list_ex (\<lambda>i. valid_mask rs ! i) [0..<length rs]"
    unfolding list_ex_iff by blast
qed

lemma target_empty_backfill:
  assumes "\<not> (\<exists>r \<in> set rs. isna (jeunggam r) \<and> ne0 (jeonnyeon r))"
  shows "map (backfill_row L) rs = rs"
  using assms by (induction rs) (auto simp: backfill_row_def)

lemma length_filter_nth:
  "length (filter (\<lambda>i. P (xs ! i)) [0..<length xs]) = length (filter P xs)"
proof (induction xs rule: rev_induct)
  case Nil
  show ?case by simp
next
  case (snoc x xs)
  have "filter (\<lambda>i. P ((xs @ [x]) ! i)) [0..<length xs] = filter (\<lambda>i. P (xs ! i)) [0..<length xs]"
    by (rule filter_cong) (auto simp: nth_append)
  with snoc show ?case by simp
qed

lemma length_pct_series_valid:
  "length (pct_series L (valid_mask rs) rs)
     = length (filter (\<lambda>r. isna (jeunggam r) \<and> ne0 (jeonnyeon r)) rs)"
proof -
  have "filter (\<lambda>i. valid_mask rs ! i) [0..<length rs]
        = filter (\<lambda>i. (\<lambda>r. isna (jeunggam r) \<and> ne0 (jeonnyeon r)) (rs ! i)) [0..<length rs]"
    by (rule filter_cong) (auto simp: valid_mask_nth)
  then show ?thesis
    using length_filter_nth [of "\<lambda>r. isna (jeunggam r) \<and> ne0 (jeonnyeon r)" rs]
    by (simp add: pct_series_def)
qed

lemma length_pct_series_missing:
  "length (pct_series L (missing_mask rs) rs) = length (filter (\<lambda>r. isna (jeunggam r)) rs)"
proof -
  have "filter (\<lambda>i. missing_mask rs ! i) [0..<length rs]
        = filter (\<lambda>i. (\<lambda>r. isna (jeunggam r)) (rs ! i)) [0..<length rs]"
    by (rule filter_cong) (auto simp: missing_mask_nth)
  then show ?thesis
    using length_filter_nth [of "\<lambda>r. isna (jeunggam r)" rs]
    by (simp add: pct_series_def)
qed

text \<open>In \<^verbatim>\<open>0003.py\<close> the right-hand side is empty when the target is, so the assignment never
  raises.\<close>

lemma loc_assign_0003:
  "loc_assign (valid_mask rs) (pct_series L (valid_mask rs) rs) rs = Inr (map (backfill_row L) rs)"
proof (cases "\<exists>r \<in> set rs. isna (jeunggam r) \<and> ne0 (jeonnyeon r)")
  case True
  then show ?thesis
    by (simp add: loc_assign_def target_nonempty aligned_update)
next
  case False
  then have "filter (\<lambda>r. isna (jeunggam r) \<and> ne0 (jeonnyeon r)) rs = []"
    by (auto simp: filter_empty_conv)
  then have len: "length (pct_series L (valid_mask rs) rs) = 0"
    by (simp add: length_pct_series_valid)
  from False have empty: "\<not> list_ex (\<lambda>i. valid_mask rs ! i) [0..<length rs]"
    by (simp only: target_nonempty not_False_eq_True)
  from False have same: "map (backfill_row L) rs = rs"
    by (rule target_empty_backfill)
  show ?thesis
    unfolding loc_assign_def using empty len by (simp add: same)
qed

text \<open>In \<^verbatim>\<open>kurly_dash_2.py\<close> the right-hand side has a value for every row without a percent:
  the assignment raises when no such row has a prior revenue other than 0 and their number
  is neither 0, 1 nor the number of rows.\<close>

lemma loc_assign_kurly:
  "loc_assign (valid_mask rs) (pct_series L (missing_mask rs) rs) rs =
     (if (\<exists>r \<in> set rs. isna (jeunggam r) \<and> ne0 (jeonnyeon r))
         \<or> length (filter (\<lambda>r. isna (jeunggam r)) rs) \<in> {0, 1, length rs}
      then Inr (map (backfill_row L) rs)
      else Inl ValueError)"
proof (cases "\<exists>r \<in> set rs. isna (jeunggam r) \<and> ne0 (jeonnyeon r)")
  case True
  have "map (\<lambda>i. if valid_mask rs ! i
                  then (rs ! i)\<lparr>jeunggam := align (pct_series L (missing_mask rs) rs) i\<rparr>
                  else rs ! i) [0..<length rs]
        = map (backfill_row L) rs"
    by (rule aligned_update) (simp add: valid_mask_nth missing_mask_nth)
  with True show ?thesis
    by (simp add: loc_assign_def target_nonempty)
next
  case False
  then have empty: "\<not> list_ex (\<lambda>i. valid_mask rs ! i) [0..<length rs]"
    by (simp only: target_nonempty not_False_eq_True)
  from False have same: "map (backfill_row L) rs = rs"
    by (rule target_empty_backfill)
  have "loc_assign (valid_mask rs) (pct_series L (missing_mask rs) rs) rs =
     (if length (filter (\<lambda>r. isna (jeunggam r)) rs) \<in> {0, 1, length rs}
      then Inr rs else Inl ValueError)"
    unfolding loc_assign_def using empty by (simp add: length_pct_series_missing)
  with False show ?thesis
    by (simp only: same if_False simp_thms)
qed

lemma backfill_0003_eq: "backfill_0003 L df = Inr (df\<lparr>rows := map (backfill_row L) (rows df)\<rparr>)"
  by (simp add: backfill_0003_def loc_assign_0003)

lemma backfill_kurly_eq:
  "backfill_kurly L df =
     (if (\<exists>r \<in> set (rows df). isna (jeunggam r) \<and> ne0 (jeonnyeon r))
         \<or> length (filter (\<lambda>r. isna (jeunggam r)) (rows df)) \<in> {0, 1, length (rows df)}
      then Inr (df\<lparr>rows := map (backfill_row L) (rows df)\<rparr>)
      else Inl ValueError)"
  by (simp add: backfill_kurly_def loc_assign_kurly)

lemma backfill_kurly_Inr: "backfill_kurly L df = Inr x \<Longrightarrow> backfill_0003 L df = Inr x"
  by (simp add: backfill_kurly_eq backfill_0003_eq split: if_splits)


section \<open>\<^verbatim>\<open>enrich_df\<close> as a map over the sorted rows\<close>

lemma mem_add_col: "c \<in> set (add_col d cs) \<longleftrightarrow> c = d \<or> c \<in> set cs"
  by (auto simp: add_col_def)

lemma columns_sort_values: "columns (sort_values df) = columns df"
  by (simp add: sort_values_def)

lemma enrich_df_0003_eq:
  "enrich_df_0003 L df =
     (if Wol \<notin> set (columns df) then Inl (KeyError Wol)
      else if Maechul \<notin> set (columns df) then Inl (KeyError Maechul)
      else if Jeonnyeon \<notin> set (columns df) then Inl (KeyError Jeonnyeon)
      else Inr \<lparr>columns = add_col Bungi (add_col Jeunggam (add_col Date (columns df))),
                rows = map (\<lambda>k. finish_row (backfill_row L
                                  (coerce_row L (Jeunggam \<in> set (columns df)) k)))
                         (rows (sort_values \<lparr>columns = add_col Date (columns df),
                                             rows = map (key_row L) (rows df)\<rparr>))\<rparr>)"
  by (simp add: enrich_df_0003_def label_and_date_def coerce_numeric_def sort_values_def
      backfill_0003_eq fillna_quarter_def mem_add_col finish_row_def o_def)

lemma enrich_df_kurly_Inr: "enrich_df_kurly L df = Inr out \<Longrightarrow> enrich_df_0003 L df = Inr out"
  by (auto simp: enrich_df_kurly_def enrich_df_0003_def dest: backfill_kurly_Inr
      split: sum.splits)

lemma enrich_df_Inr:
  assumes "e = enrich_df_0003 \<or> e = enrich_df_kurly" and "e L df = Inr out"
  shows "enrich_df_0003 L df = Inr out"
  using assms by (auto dest: enrich_df_kurly_Inr)

text \<open>\<^verbatim>\<open>enrich_df\<close> of \<^verbatim>\<open>kurly_dash_2.py\<close> in terms of the coerced rows.\<close>

lemma enrich_df_kurly_eq:
  "enrich_df_kurly L df =
     (if Wol \<notin> set (columns df) then Inl (KeyError Wol)
      else if Maechul \<notin> set (columns df) then Inl (KeyError Maechul)
      else if Jeonnyeon \<notin> set (columns df) then Inl (KeyError Jeonnyeon)
      else
        (let rs = map (coerce_row L (Jeunggam \<in> set (columns df)))
                    (rows (sort_values \<lparr>columns = add_col Date (columns df),
                                        rows = map (key_row L) (rows df)\<rparr>))
         in if (\<exists>r \<in> set rs. isna (jeunggam r) \<and> ne0 (jeonnyeon r))
               \<or> length (filter (\<lambda>r. isna (jeunggam r)) rs) \<in> {0, 1, length rs}
            then enrich_df_0003 L df
            else Inl ValueError))"
proof -
  define rs where "rs = map (coerce_row L (Jeunggam \<in> set (columns df)))
                    (rows (sort_values \<lparr>columns = add_col Date (columns df),
                                        rows = map (key_row L) (rows df)\<rparr>))"
  define nums where "nums = \<lparr>columns = add_col Jeunggam (add_col Date (columns df)), rows = rs\<rparr>"
  define ok where "ok \<longleftrightarrow> (\<exists>r \<in> set rs. isna (jeunggam r) \<and> ne0 (jeonnyeon r))
               \<or> length (filter (\<lambda>r. isna (jeunggam r)) rs) \<in> {0, 1, length rs}"
  have kurly: "enrich_df_kurly L df =
     (if Wol \<notin> set (columns df) then Inl (KeyError Wol)
      else if Maechul \<notin> set (columns df) then Inl (KeyError Maechul)
      else if Jeonnyeon \<notin> set (columns df) then Inl (KeyError Jeonnyeon)
      else (case backfill_kurly L nums of
              Inl e \<Rightarrow> Inl e | Inr filled \<Rightarrow> Inr (fillna_quarter filled)))"
    by (simp add: enrich_df_kurly_def label_and_date_def coerce_numeric_def
        columns_sort_values mem_add_col nums_def rs_def)
  have older: "enrich_df_0003 L df =
     (if Wol \<notin> set (columns df) then Inl (KeyError Wol)
      else if Maechul \<notin> set (columns df) then Inl (KeyError Maechul)
      else if Jeonnyeon \<notin> set (columns df) then Inl (KeyError Jeonnyeon)
      else (case backfill_0003 L nums of
              Inl e \<Rightarrow> Inl e | Inr filled \<Rightarrow> Inr (fillna_quarter filled)))"
    by (simp add: enrich_df_0003_def label_and_date_def coerce_numeric_def
        columns_sort_values mem_add_col nums_def rs_def)
  have bk: "backfill_kurly L nums = (if ok then backfill_0003 L nums else Inl ValueError)"
    unfolding backfill_kurly_eq backfill_0003_eq ok_def by (simp add: nums_def)
  have "enrich_df_kurly L df =
     (if Wol \<notin> set (columns df) then Inl (KeyError Wol)
      else if Maechul \<notin> set (columns df) then Inl (KeyError Maechul)
      else if Jeonnyeon \<notin> set (columns df) then Inl (KeyError Jeonnyeon)
      else if ok then enrich_df_0003 L df else Inl ValueError)"
    unfolding kurly older bk by simp
  then show ?thesis
    unfolding ok_def rs_def Let_def .
qed

lemma enrich_df_rows:
  assumes "e = enrich_df_0003 \<or> e = enrich_df_kurly" and "e L df = Inr out"
  shows "rows out = map (\<lambda>k. finish_row (backfill_row L
                              (coerce_row L (Jeunggam \<in> set (columns df)) k)))
                      (rows (sort_values \<lparr>columns = add_col Date (columns df),
                                          rows = map (key_row L) (rows df)\<rparr>))"
proof -
  from assms have "enrich_df_0003 L df = Inr out" by (rule enrich_df_Inr)
  then show ?thesis
    by (auto simp: enrich_df_0003_eq split: if_splits)
qed

lemma finish_backfill_coerce_fields:
  "wol (finish_row (backfill_row L (coerce_row L b k))) = k_wol k"
  "date (finish_row (backfill_row L (coerce_row L b k))) = k_date k"
  "maechul (finish_row (backfill_row L (coerce_row L b k))) = to_numeric L (k_maechul k)"
  "jeonnyeon (finish_row (backfill_row L (coerce_row L b k))) = to_numeric L (k_jeonnyeon k)"
  "bungi (finish_row (backfill_row L (coerce_row L b k))) = quarter (k_date k)"
  by (simp_all add: finish_row_def backfill_row_def coerce_row_def)

lemma mset_sort_values: "mset (rows (sort_values df)) = mset (rows df)"
proof -
  have "mset (filter (\<lambda>r. k_date r \<noteq> None) (rows df)) + mset (filter (\<lambda>r. k_date r = None) (rows df))
        = mset (rows df)"
    by (induction "rows df" arbitrary: df) simp_all
  then show ?thesis by (simp add: sort_values_def)
qed

lemma set_sort_values: "set (rows (sort_values df)) = set (rows df)"
  by (auto simp: sort_values_def)

lemma list_all2_eq_map: "list_all2 (\<lambda>y x. y = f x) ys xs \<longleftrightarrow> ys = map f xs"
  by (induction ys arbitrary: xs) (auto simp: list_all2_Cons1)

lemma sort_values_perm:
  "\<exists>ps. mset ps = mset raws
      \<and> rows (sort_values \<lparr>columns = cs, rows = map (key_row L) raws\<rparr>) = map (key_row L) ps"
proof -
  let ?ks = "rows (sort_values \<lparr>columns = cs, rows = map (key_row L) raws\<rparr>)"
  have "list_all2 (\<lambda>k raw. k = key_row L raw) (map (key_row L) raws) raws"
    by (simp add: list_all2_eq_map)
  moreover have "mset ?ks = mset (map (key_row L) raws)"
    using mset_sort_values [of "\<lparr>columns = cs, rows = map (key_row L) raws\<rparr>"] by simp
  ultimately obtain ps where "list_all2 (\<lambda>k raw. k = key_row L raw) ?ks ps" "mset ps = mset raws"
    using list_all2_reorder_left_invariance by blast
  then show ?thesis by (auto simp: list_all2_eq_map)
qed

lemma enrich_df_perm:
  assumes "e = enrich_df_0003 \<or> e = enrich_df_kurly" and "e L df = Inr out"
  shows "\<exists>ps. mset ps = mset (rows df)
            \<and> rows out = map (enrich_row L (Jeunggam \<in> set (columns df))) ps"
proof -
  obtain ps where ps: "mset ps = mset (rows df)"
    "rows (sort_values \<lparr>columns = add_col Date (columns df), rows = map (key_row L) (rows df)\<rparr>)
       = map (key_row L) ps"
    using sort_values_perm by blast
  have "rows out = map (enrich_row L (Jeunggam \<in> set (columns df))) ps"
    by (simp add: enrich_df_rows [OF assms] ps(2) enrich_row_def)
  with ps(1) show ?thesis by blast
qed

lemma enrich_df_row_ex:
  assumes "e = enrich_df_0003 \<or> e = enrich_df_kurly" and "e L df = Inr out"
    and "r \<in> set (rows out)"
  shows "\<exists>raw \<in> set (rows df). r = enrich_row L (Jeunggam \<in> set (columns df)) raw"
proof -
  obtain ps where ps: "mset ps = mset (rows df)"
    "rows out = map (enrich_row L (Jeunggam \<in> set (columns df))) ps"
    using enrich_df_perm [OF assms(1,2)] by blast
  from ps(1) have "set ps = set (rows df)" by (rule mset_eq_setD)
  with assms(3) ps(2) show ?thesis by auto
qed

lemma enrich_row_fields:
  "wol (enrich_row L b raw) = strip (astype_str L (r_wol raw))"
  "date (enrich_row L b raw) = to_datetime (strip (astype_str L (r_wol raw)))"
  "maechul (enrich_row L b raw) = to_numeric L (r_maechul raw)"
  "jeonnyeon (enrich_row L b raw) = to_numeric L (r_jeonnyeon raw)"
  "bungi (enrich_row L b raw) = quarter (to_datetime (strip (astype_str L (r_wol raw))))"
  by (simp_all add: enrich_row_def finish_backfill_coerce_fields key_row_def Let_def)



section \<open>Dates, quarters and the sort\<close>

lemma isdigit_digit_le: "isdigit c \<Longrightarrow> digit c \<le> 9"
  unfolding isdigit_def digit_def by arith

lemma strp_month_range: "strp_month s = Some m \<Longrightarrow> 1 \<le> m \<and> m \<le> 12"
  by (auto simp: strp_month_def split: list.splits if_splits dest: isdigit_digit_le)

lemma strptime_month: "strptime s = Some t \<Longrightarrow> 1 \<le> month t \<and> month t \<le> 12"
  using strp_month_range
  by (auto simp: strptime_def split: list.splits if_splits)

lemma to_datetime_month: "to_datetime v = Some t \<Longrightarrow> 1 \<le> month t \<and> month t \<le> 12"
  using strptime_month
  by (auto simp: to_datetime_def split: option.splits)

lemma ordinal_le:
  assumes "1 \<le> month s" "month s \<le> 12" "1 \<le> month t" "month t \<le> 12"
  shows "ordinal s \<le> ordinal t \<longleftrightarrow> year s < year t \<or> (year s = year t \<and> month s \<le> month t)"
  using assms unfolding ordinal_def by arith

lemma key_row_date: "k_date (key_row L r) = to_datetime (k_wol (key_row L r))"
  by (simp add: key_row_def Let_def)

lemma sorted_wrt_sort_values:
  assumes "\<forall>k \<in> set (rows df). k_date k = to_datetime (k_wol k)"
  shows "sorted_wrt (\<lambda>a b. date_le (k_date a) (k_date b)) (rows (sort_values df))"
proof -
  let ?A = "filter (\<lambda>r. k_date r \<noteq> None) (rows df)"
  let ?B = "filter (\<lambda>r. k_date r = None) (rows df)"
  let ?P = "\<lambda>a b. date_le (k_date a) (k_date b)"
  have "sorted (map date_ord (sort_key date_ord ?A))" by simp
  then have s: "sorted_wrt (\<lambda>a b. date_ord a \<le> date_ord b) (sort_key date_ord ?A)"
    by (simp add: sorted_wrt_map)
  have "sorted_wrt ?P (sort_key date_ord ?A)"
  proof (rule sorted_wrt_mono_rel [OF _ s])
    fix a b assume a: "a \<in> set (sort_key date_ord ?A)" and b: "b \<in> set (sort_key date_ord ?A)"
      and le: "date_ord a \<le> date_ord b"
    from a obtain s where s: "k_date a = Some s" "to_datetime (k_wol a) = Some s"
      using assms by auto
    from b obtain t where t: "k_date b = Some t" "to_datetime (k_wol b) = Some t"
      using assms by auto
    from le s t have "ordinal s \<le> ordinal t" by (simp add: date_ord_def)
    then show "date_le (k_date a) (k_date b)"
      using s t to_datetime_month [of "k_wol a" s] to_datetime_month [of "k_wol b" t]
      by (simp add: date_le_def ordinal_le)
  qed
  moreover have "sorted_wrt ?P ?B"
    by (rule sorted_wrt_mono_rel [of _ "\<lambda>a b. True"]) (auto simp: date_le_def)
  moreover have "\<forall>a \<in> set (sort_key date_ord ?A). \<forall>b \<in> set ?B. ?P a b"
    by (auto simp: date_le_def)
  ultimately show ?thesis
    by (simp add: sort_values_def sorted_wrt_append)
qed

lemma quarter_ceiling:
  assumes "1 \<le> m" "m \<le> 12"
  shows "int ((m - 1) div 3 + 1) = \<lceil>(of_nat m :: rat) / 3\<rceil>"
proof -
  from assms have "m = 1 \<or> m = 2 \<or> m = 3 \<or> m = 4 \<or> m = 5 \<or> m = 6
      \<or> m = 7 \<or> m = 8 \<or> m = 9 \<or> m = 10 \<or> m = 11 \<or> m = 12"
    by arith
  then show ?thesis by (elim disjE) (simp_all add: ceiling_eq_iff)
qed

lemma quarter_range: "1 \<le> m \<Longrightarrow> m \<le> 12 \<Longrightarrow> (m - 1) div 3 + 1 \<in> {1, 2, 3, 4::nat}"
  by simp arith

section \<open>The scans of \<^verbatim>\<open>idxmax\<close> and \<^verbatim>\<open>idxmin\<close>\<close>

lemma arg_scan_all_null:
  "\<forall>v \<in> set vs. v = None \<Longrightarrow> arg_scan better i best vs = best"
  by (induction vs arbitrary: i) simp_all

lemma arg_scan_append:
  "arg_scan better i best (vs @ ws) = arg_scan better (i + length vs) (arg_scan better i best vs) ws"
  by (induction better i best vs rule: arg_scan.induct) simp_all

lemma arg_scan_first_extreme:
  assumes refl: "\<And>a. R a a" and trans: "\<And>a b c. R a b \<Longrightarrow> R b c \<Longrightarrow> R a c"
    and total: "\<And>a b. R a b \<or> R b a"
  shows "case arg_scan (\<lambda>v m. \<not> R v m) 0 None vs of
           None \<Rightarrow> (\<forall>v \<in> set vs. v = None)
         | Some (k, m) \<Rightarrow>
             k < length vs \<and> vs ! k = Some m
             \<and> (\<forall>j < length vs. \<forall>x. vs ! j = Some x \<longrightarrow> R x m)
             \<and> (\<forall>j < k. \<forall>x. vs ! j = Some x \<longrightarrow> \<not> R m x)"
proof (induction vs rule: rev_induct)
  case Nil
  show ?case by simp
next
  case (snoc v vs)
  let ?res = "arg_scan (\<lambda>v m. \<not> R v m) 0 None vs"
  show ?case
  proof (cases v)
    case None
    then have "arg_scan (\<lambda>v m. \<not> R v m) 0 None (vs @ [v]) = ?res"
      by (simp add: arg_scan_append)
    with snoc None show ?thesis
      by (auto simp: nth_append less_Suc_eq split: option.splits)
  next
    case (Some y)
    show ?thesis
    proof (cases ?res)
      case None
      then have "arg_scan (\<lambda>v m. \<not> R v m) 0 None (vs @ [v]) = Some (length vs, y)"
        using Some by (simp add: arg_scan_append)
      moreover from snoc None have "\<forall>v \<in> set vs. v = None" by simp
      then have "\<forall>j < length vs. vs ! j = None" by simp
      ultimately show ?thesis using Some refl
        by (auto simp: nth_append less_Suc_eq)
    next
      case res: (Some km)
      obtain k m where km: "km = (k, m)" by (cases km)
      from snoc res km have ih: "k < length vs" "vs ! k = Some m"
        "\<forall>j < length vs. \<forall>x. vs ! j = Some x \<longrightarrow> R x m"
        "\<forall>j < k. \<forall>x. vs ! j = Some x \<longrightarrow> \<not> R m x"
        by simp_all
      show ?thesis
      proof (cases "R y m")
        case True
        then have "arg_scan (\<lambda>v m. \<not> R v m) 0 None (vs @ [v]) = Some (k, m)"
          using Some res km by (simp add: arg_scan_append)
        with ih True Some show ?thesis
          by (auto simp: nth_append less_Suc_eq)
      next
        case False
        then have new: "arg_scan (\<lambda>v m. \<not> R v m) 0 None (vs @ [v]) = Some (length vs, y)"
          using Some res km by (simp add: arg_scan_append)
        from False total have my: "R m y" by blast
        have "R x y" if "j < length vs" "vs ! j = Some x" for j x
          using ih(3) that my trans by blast
        moreover have "\<not> R y x" if "j < length vs" "vs ! j = Some x" for j x
          using ih(3) that False trans by blast
        ultimately show ?thesis using new Some refl
          by (auto simp: nth_append less_Suc_eq)
      qed
    qed
  qed
qed

lemma idxmax_first:
  assumes "\<exists>v \<in> set vs. v \<noteq> None"
  shows "\<exists>k m. idxmax vs = Inr k \<and> k < length vs \<and> vs ! k = Some m
           \<and> (\<forall>j < length vs. \<forall>x. vs ! j = Some x \<longrightarrow> x \<le> m)
           \<and> (\<forall>j < k. vs ! j \<noteq> Some m)"
proof -
  have "(\<lambda>v m. m < v) = (\<lambda>v m :: rat. \<not> v \<le> m)" by (simp add: fun_eq_iff not_le)
  then have eq: "arg_scan (\<lambda>v m. m < v) 0 None vs = arg_scan (\<lambda>v m. \<not> v \<le> m) 0 None vs"
    by simp
  have spec: "case arg_scan (\<lambda>v m. \<not> v \<le> m) 0 None vs of
           None \<Rightarrow> (\<forall>v \<in> set vs. v = None)
         | Some (k, m) \<Rightarrow>
             k < length vs \<and> vs ! k = Some m
             \<and> (\<forall>j < length vs. \<forall>x. vs ! j = Some x \<longrightarrow> x \<le> m)
             \<and> (\<forall>j < k. \<forall>x. vs ! j = Some x \<longrightarrow> \<not> m \<le> x)"
    by (rule arg_scan_first_extreme [where R = "\<lambda>a b :: rat. a \<le> b"]) auto
  with assms obtain k m where km: "arg_scan (\<lambda>v m. \<not> v \<le> m) 0 None vs = Some (k, m)"
    by (cases "arg_scan (\<lambda>v m. \<not> v \<le> m) 0 None vs") auto
  with spec have "k < length vs" "vs ! k = Some m"
    "\<forall>j < length vs. \<forall>x. vs ! j = Some x \<longrightarrow> x \<le> m" "\<forall>j < k. vs ! j \<noteq> Some m"
    by auto
  moreover have "idxmax vs = Inr k" by (simp add: idxmax_def eq km)
  ultimately show ?thesis by blast
qed

lemma idxmin_first:
  assumes "\<exists>v \<in> set vs. v \<noteq> None"
  shows "\<exists>k m. idxmin vs = Inr k \<and> k < length vs \<and> vs ! k = Some m
           \<and> (\<forall>j < length vs. \<forall>x. vs ! j = Some x \<longrightarrow> m \<le> x)
           \<and> (\<forall>j < k. vs ! j \<noteq> Some m)"
proof -
  have "(\<lambda>v m. v < m) = (\<lambda>v m :: rat. \<not> m \<le> v)" by (simp add: fun_eq_iff not_le)
  then have eq: "arg_scan (\<lambda>v m. v < m) 0 None vs = arg_scan (\<lambda>v m. \<not> m \<le> v) 0 None vs"
    by simp
  have spec: "case arg_scan (\<lambda>v m. \<not> m \<le> v) 0 None vs of
           None \<Rightarrow> (\<forall>v \<in> set vs. v = None)
         | Some (k, m) \<Rightarrow>
             k < length vs \<and> vs ! k = Some m
             \<and> (\<forall>j < length vs. \<forall>x. vs ! j = Some x \<longrightarrow> m \<le> x)
             \<and> (\<forall>j < k. \<forall>x. vs ! j = Some x \<longrightarrow> \<not> x \<le> m)"
    by (rule arg_scan_first_extreme [where R = "\<lambda>a b :: rat. b \<le> a"]) auto
  with assms obtain k m where km: "arg_scan (\<lambda>v m. \<not> m \<le> v) 0 None vs = Some (k, m)"
    by (cases "arg_scan (\<lambda>v m. \<not> m \<le> v) 0 None vs") auto
  with spec have "k < length vs" "vs ! k = Some m"
    "\<forall>j < length vs. \<forall>x. vs ! j = Some x \<longrightarrow> m \<le> x" "\<forall>j < k. vs ! j \<noteq> Some m"
    by auto
  moreover have "idxmin vs = Inr k" by (simp add: idxmin_def eq km)
  ultimately show ?thesis by blast
qed

lemma nansum_all_null: "\<forall>v \<in> set vs. v = None \<Longrightarrow> nansum vs = 0"
  by (induction vs) (simp_all add: nansum_def)




section \<open>A call on the heap\<close>

lemma enrich_df_heap_eq:
  assumes "a < length h" and "h ! a = Raw df"
  shows "enrich_df_heap bf L a h =
     (case label_and_date L df of
        Inl err \<Rightarrow> (Inl err, h @ [Raw df])
      | Inr keyed \<Rightarrow>
          (case coerce_numeric L (sort_values keyed) of
             Inl err \<Rightarrow> (Inl err, h @ [Keyed keyed, Keyed (sort_values keyed)])
           | Inr nums \<Rightarrow>
               (case bf L nums of
                  Inl err \<Rightarrow> (Inl err, h @ [Keyed keyed, Enriched nums])
                | Inr filled \<Rightarrow>
                    (Inr (Suc (length h)),
                     h @ [Keyed keyed, Enriched (fillna_quarter filled)]))))"
  using assms
  by (simp add: enrich_df_heap_def alloc_def Let_def list_update_append split: sum.splits)

lemma enrich_df_as_stages:
  assumes "bf = backfill_0003 \<and> e = enrich_df_0003 \<or> bf = backfill_kurly \<and> e = enrich_df_kurly"
  shows "e L df =
     (case label_and_date L df of
        Inl err \<Rightarrow> Inl err
      | Inr keyed \<Rightarrow>
          (case coerce_numeric L (sort_values keyed) of
             Inl err \<Rightarrow> Inl err
           | Inr nums \<Rightarrow>
               (case bf L nums of
                  Inl err \<Rightarrow> Inl err
                | Inr filled \<Rightarrow> Inr (fillna_quarter filled))))"
  using assms by (auto simp: enrich_df_0003_def enrich_df_kurly_def)

lemma enrich_df_heap_call:
  assumes "bf = backfill_0003 \<and> e = enrich_df_0003 \<or> bf = backfill_kurly \<and> e = enrich_df_kurly"
    and "a < length h" and "h ! a = Raw df"
    and "enrich_df_heap bf L a h = (res, h')"
  shows "take (length h) h' = h \<and> length h < length h'
       \<and> (case e L df of
            Inl err \<Rightarrow> res = Inl err
          | Inr out \<Rightarrow> (\<exists>c. res = Inr c \<and> length h \<le> c \<and> c < length h' \<and> h' ! c = Enriched out))"
  using assms(4)
  unfolding enrich_df_heap_eq [OF assms(2,3)] enrich_df_as_stages [OF assms(1)]
  by (auto split: sum.splits simp: nth_append)


section \<open>The sample tables\<close>

lemma to_datetime_samples:
  "to_datetime (Some (ascii ''2024-01'')) = Some (Timestamp 2024 1)"
  "to_datetime (Some (ascii ''2024-02'')) = Some (Timestamp 2024 2)"
  "to_datetime (Some (ascii ''2024-03'')) = Some (Timestamp 2024 3)"
  "to_datetime (Some (ascii ''abc'')) = None"
  "to_datetime (Some (ascii ''nan'')) = None"
  by (simp_all add: to_datetime_def strptime_def strp_month_def isdigit_def digit_def ascii_def)

lemma strip_samples:
  "strip (Some (ascii ''2024-03 '')) = Some (ascii ''2024-03'')"
  "strip (Some (ascii ''2024-01'')) = Some (ascii ''2024-01'')"
  "strip (Some (ascii ''2024-02'')) = Some (ascii ''2024-02'')"
  "strip (Some (ascii ''2024-03'')) = Some (ascii ''2024-03'')"
  "strip (Some (ascii ''abc'')) = Some (ascii ''abc'')"
  "strip (Some (ascii ''nan'')) = Some (ascii ''nan'')"
  by (simp_all add: strip_def py_strip_def isspace_def ascii_def)

text \<open>A no-break space (U+00A0) at the end of a label is white space for \<^verbatim>\<open>str.strip\<close>.\<close>

lemma strip_no_break_space:
  "strip (Some (ascii ''2024-01'' @ [160])) = Some (ascii ''2024-01'')"
  by (simp add: strip_def py_strip_def isspace_def ascii_def)

lemma str2num_samples:
  "str2num_digits (ascii ''11'') = Some 11"
  "str2num_digits (ascii ''12'') = Some 12"
  "str2num_digits (ascii ''7'') = Some 7"
  "str2num_digits (ascii ''x'') = None"
  by (simp_all add: str2num_digits_def isdigit_def digit_def ascii_def)

lemmas eval_defs =
  sample_lib_def add_col_def sort_values_def
  key_row_def astype_str_def strip_samples to_datetime_samples date_ord_def ordinal_def
  coerce_row_def to_numeric_def str2num_samples backfill_row_def finish_row_def
  isna_def ne0_def pct_expr_def fillna0_def quarter_def to_flt_def

lemma sample_enriched: "enrich_df_0003 sample_lib sample_df = Inr sample_out"
  by (simp add: enrich_df_0003_eq sample_df_def sample_out_def eval_defs)


lemma sample_pct_enriched_kurly: "enrich_df_kurly sample_lib sample_pct_df = Inr sample_pct_out"
  by (simp add: enrich_df_kurly_eq enrich_df_0003_eq sample_pct_df_def sample_pct_out_def
      eval_defs)

lemma dup_enriched: "enrich_df_0003 sample_lib dup_df = Inr dup_out"
  by (simp add: enrich_df_0003_eq dup_df_def dup_out_def eval_defs)

lemma nbsp_enriched: "enrich_df_0003 sample_lib nbsp_df = Inr dup_out"
  by (simp add: enrich_df_0003_eq nbsp_df_def dup_out_def eval_defs strip_no_break_space)




lemma empty_target_enriched: "enrich_df_0003 sample_lib empty_target_df = Inr empty_target_out"
  by (simp add: enrich_df_0003_eq empty_target_df_def empty_target_out_def eval_defs)

lemma unparsed_pct_enriched: "enrich_df_0003 sample_lib unparsed_pct_df = Inr empty_target_out"
  by (simp add: enrich_df_0003_eq unparsed_pct_df_def empty_target_out_def eval_defs)

lemma empty_target_raises: "enrich_df_kurly sample_lib empty_target_df = Inl ValueError"
  by (simp add: enrich_df_kurly_eq empty_target_df_def eval_defs)

lemma unparsed_pct_raises: "enrich_df_kurly sample_lib unparsed_pct_df = Inl ValueError"
  by (simp add: enrich_df_kurly_eq unparsed_pct_df_def eval_defs)


section \<open>The claims\<close>

subsection \<open>The percent change\<close>





subsection \<open>The quarter\<close>

text \<open>
  Claim C2, as amended. For a row of the result whose period label parses, the quarter is a
  whole number in \<open>{1, 2, 3, 4}\<close> and equals the month divided by 3, rounded up; for a row
  whose label does not parse the quarter is null.
\<close>

theorem quarter_of_parsed_rows:
  assumes "e = enrich_df_0003 \<or> e = enrich_df_kurly" and "e L df = Inr out"
    and "r \<in> set (rows out)"
  shows "case to_datetime (wol r) of
           None \<Rightarrow> bungi r = None
         | Some t \<Rightarrow>
             1 \<le> month t \<and> month t \<le> 12 \<and>
             (\<exists>q. bungi r = Some q \<and> q \<in> {1, 2, 3, 4} \<and> int q = \<lceil>(of_nat (month t) :: rat) / 3\<rceil>)"
proof -
  obtain raw where r: "r = enrich_row L (Jeunggam \<in> set (columns df)) raw"
    using enrich_df_row_ex [OF assms] by blast
  have q: "bungi r = quarter (to_datetime (wol r))"
    by (simp add: r enrich_row_fields)
  show ?thesis
  proof (cases "to_datetime (wol r)")
    case None
    with q show ?thesis by (simp add: quarter_def)
  next
    case (Some t)
    then have m: "1 \<le> month t" "month t \<le> 12"
      using to_datetime_month by blast+
    have "bungi r = Some ((month t - 1) div 3 + 1)"
      using q Some by (simp add: quarter_def)
    with m quarter_range [OF m] quarter_ceiling [OF m] Some show ?thesis
      by simp
  qed
qed

theorem quarter_of_parsed_rows_witness:
  "enrich_df_0003 sample_lib sample_df = Inr sample_out
   \<and> rows sample_out ! 1 \<in> set (rows sample_out)
   \<and> to_datetime (wol (rows sample_out ! 1)) = Some (Timestamp 2024 3)
   \<and> bungi (rows sample_out ! 1) = Some 1
   \<and> (1::nat) \<in> {1, 2, 3, 4} \<and> int 1 = \<lceil>(of_nat 3 :: rat) / 3\<rceil>
   \<and> (case to_datetime (wol (rows sample_out ! 1)) of
         None \<Rightarrow> bungi (rows sample_out ! 1) = None
       | Some t \<Rightarrow>
           1 \<le> month t \<and> month t \<le> 12 \<and>
           (\<exists>q. bungi (rows sample_out ! 1) = Some q \<and> q \<in> {1, 2, 3, 4}
                \<and> int q = \<lceil>(of_nat (month t) :: rat) / 3\<rceil>))"
  using quarter_of_parsed_rows [of enrich_df_0003 sample_lib sample_df sample_out
      "rows sample_out ! 1"] sample_enriched
  by (simp add: sample_out_def to_datetime_samples)

text \<open>Claim C2 as stated fails on a row whose label does not parse: its quarter is null, not
  one of 1 to 4.\<close>

theorem quarter_counterexample:
  "enrich_df_0003 sample_lib sample_df = Inr sample_out
   \<and> rows sample_out ! 2 \<in> set (rows sample_out)
   \<and> wol (rows sample_out ! 2) = Some (ascii ''abc'')
   \<and> to_datetime (Some (ascii ''abc'')) = None
   \<and> bungi (rows sample_out ! 2) = None
   \<and> bungi (rows sample_out ! 2) \<notin> {Some 1, Some 2, Some 3, Some 4}"
  using sample_enriched by (simp add: sample_out_def to_datetime_samples)


subsection \<open>Labels that do not parse\<close>





subsection \<open>The two scripts on a table with an empty target\<close>

text \<open>
  Claim C4 fails on a table in which no row without a percent has a prior revenue other than
  0 and the rows without a percent are two of three. \<^verbatim>\<open>enrich_df\<close> of \<^verbatim>\<open>0003.py\<close> returns the
  table with the percents 7, 0 and 0; \<^verbatim>\<open>enrich_df\<close> of \<^verbatim>\<open>kurly_dash_2.py\<close> raises \<^verbatim>\<open>ValueError\<close>,
  because its right-hand side is computed on the rows of \<^verbatim>\<open>missing_mask\<close> and does not fit
  the empty target.
\<close>

theorem kurly_backfill_raises_on_empty_target:
  "map r_jeonnyeon (rows empty_target_df) = [Num 10, Num 0, Num 0]
   \<and> map r_jeunggam (rows empty_target_df) = [Num 7, Empty, Empty]
   \<and> enrich_df_0003 sample_lib empty_target_df = Inr empty_target_out
   \<and> map jeunggam (rows empty_target_out) = [Fin 7, Fin 0, Fin 0]
   \<and> enrich_df_kurly sample_lib empty_target_df = Inl ValueError
   \<and> enrich_df_0003 sample_lib empty_target_df \<noteq> enrich_df_kurly sample_lib empty_target_df"
  using empty_target_enriched empty_target_raises
  by (simp add: empty_target_df_def empty_target_out_def)


subsection \<open>Row order\<close>

text \<open>
  Claim C5. The rows of the table returned by \<^verbatim>\<open>enrich_df\<close> are in non-decreasing order of the
  date parsed from the trimmed period label, and a row whose label does not parse is never
  in front of a row whose label does: for two positions \<open>i < j\<close> of the result, the labels are
  trimmed input labels, the dates are the parsed labels, and either both rows have dates in
  order or row \<open>j\<close> has none.
\<close>

theorem rows_sorted_by_date:
  assumes "e = enrich_df_0003 \<or> e = enrich_df_kurly" and "e L df = Inr out"
    and "i < j" and "j < length (rows out)"
  shows "(\<exists>raw \<in> set (rows df). wol (rows out ! i) = strip (astype_str L (r_wol raw)))
       \<and> date (rows out ! i) = to_datetime (wol (rows out ! i))
       \<and> date (rows out ! j) = to_datetime (wol (rows out ! j))
       \<and> (case (date (rows out ! i), date (rows out ! j)) of
            (Some s, Some t) \<Rightarrow> year s < year t \<or> (year s = year t \<and> month s \<le> month t)
          | (None, Some t) \<Rightarrow> False
          | _ \<Rightarrow> True)"
proof -
  let ?kf = "\<lparr>columns = add_col Date (columns df), rows = map (key_row L) (rows df)\<rparr>"
  let ?ks = "rows (sort_values ?kf)"
  let ?F = "\<lambda>k. finish_row (backfill_row L (coerce_row L (Jeunggam \<in> set (columns df)) k))"
  have out: "rows out = map ?F ?ks" using assms(1,2) by (rule enrich_df_rows)
  have len: "length (rows out) = length ?ks" by (simp add: out)
  have keyed: "\<forall>k \<in> set (rows ?kf). k_date k = to_datetime (k_wol k)"
    by (auto simp: key_row_date)
  have mem: "?ks ! n \<in> key_row L ` set (rows df)" if "n < length ?ks" for n
  proof -
    have "?ks ! n \<in> set ?ks" using that by (rule nth_mem)
    then show ?thesis by (simp add: set_sort_values)
  qed
  have i: "i < length ?ks" and j: "j < length ?ks" using assms(3,4) len by simp_all
  have fields: "wol (rows out ! n) = k_wol (?ks ! n)" "date (rows out ! n) = k_date (?ks ! n)"
    if "n < length ?ks" for n
    using that by (simp_all add: out finish_backfill_coerce_fields)
  have parsed: "date (rows out ! n) = to_datetime (wol (rows out ! n))"
    if "n < length ?ks" for n
    using mem [OF that] fields [OF that] by (auto simp: key_row_date)
  have "sorted_wrt (\<lambda>a b. date_le (k_date a) (k_date b)) ?ks"
    by (rule sorted_wrt_sort_values [OF keyed])
  then have "date_le (k_date (?ks ! i)) (k_date (?ks ! j))"
    using assms(3) j by (simp only: sorted_wrt_iff_nth_less)
  then have ord: "date_le (date (rows out ! i)) (date (rows out ! j))"
    by (simp only: fields(2) [OF i] fields(2) [OF j])
  from mem [OF i] obtain raw where raw: "raw \<in> set (rows df)" "?ks ! i = key_row L raw" by auto
  have "wol (rows out ! i) = strip (astype_str L (r_wol raw))"
    by (simp add: fields(1) [OF i] raw(2) key_row_def Let_def)
  with raw(1) have "\<exists>raw \<in> set (rows df). wol (rows out ! i) = strip (astype_str L (r_wol raw))"
    by blast
  with parsed [OF i] parsed [OF j] ord show ?thesis
    by (simp only: date_le_def simp_thms)
qed

theorem rows_sorted_by_date_witness:
  "enrich_df_0003 sample_lib sample_df = Inr sample_out
   \<and> (1::nat) < 2 \<and> 2 < length (rows sample_out)
   \<and> date (rows sample_out ! 1) = Some (Timestamp 2024 3)
   \<and> date (rows sample_out ! 2) = None
   \<and> (\<exists>raw \<in> set (rows sample_df).
         wol (rows sample_out ! 1) = strip (astype_str sample_lib (r_wol raw)))
   \<and> date (rows sample_out ! 1) = to_datetime (wol (rows sample_out ! 1))"
  using rows_sorted_by_date [of enrich_df_0003 sample_lib sample_df sample_out 1 2]
    sample_enriched
  by (simp add: sample_out_def)


subsection \<open>Highest and lowest revenue\<close>

text \<open>
  Claim C6. On an enriched table with at least one revenue that is not null, both scripts
  show, as the highest and the lowest revenue, rows \<open>i\<close> and \<open>j\<close> of the table whose revenues
  \<open>hi\<close> and \<open>lo\<close> bound every revenue of the table from above and from below, and no row in
  front of row \<open>i\<close> has revenue \<open>hi\<close>, no row in front of row \<open>j\<close> has revenue \<open>lo\<close>: among
  equal revenues the first row in the order of the table is taken.
\<close>

theorem extreme_revenue_cards:
  assumes "\<exists>r \<in> set (rows df). maechul r \<noteq> None"
  shows "\<exists>i j hi lo.
           i < length (rows df) \<and> j < length (rows df)
         \<and> maechul (rows df ! i) = Some hi \<and> maechul (rows df ! j) = Some lo
         \<and> (\<forall>k < length (rows df). \<forall>x. maechul (rows df ! k) = Some x \<longrightarrow> x \<le> hi \<and> lo \<le> x)
         \<and> (\<forall>k < i. maechul (rows df ! k) \<noteq> Some hi)
         \<and> (\<forall>k < j. maechul (rows df ! k) \<noteq> Some lo)
         \<and> metrics_0003 df
             = ([TotalCard (py_int (nansum (map maechul (rows df)))), AvgCard,
                 MaxCard (LabelValue (wol (rows df ! i)) (Some hi)),
                 MinCard (LabelValue (wol (rows df ! j)) (Some lo)), Charts], None)
         \<and> metrics_kurly df = metrics_0003 df"
proof -
  let ?vals = "map maechul (rows df)"
  from assms have some: "\<exists>v \<in> set ?vals. v \<noteq> None" by simp
  then have any: "notna_any ?vals" by (simp add: notna_any_def list_ex_iff)
  from idxmax_first [OF some] obtain i hi where i: "idxmax ?vals = Inr i" "i < length ?vals"
    "?vals ! i = Some hi" "\<forall>k < length ?vals. \<forall>x. ?vals ! k = Some x \<longrightarrow> x \<le> hi"
    "\<forall>k < i. ?vals ! k \<noteq> Some hi"
    by blast
  from idxmin_first [OF some] obtain j lo where j: "idxmin ?vals = Inr j" "j < length ?vals"
    "?vals ! j = Some lo" "\<forall>k < length ?vals. \<forall>x. ?vals ! k = Some x \<longrightarrow> lo \<le> x"
    "\<forall>k < j. ?vals ! k \<noteq> Some lo"
    by blast
  have len: "i < length (rows df)" "j < length (rows df)" using i(2) j(2) by simp_all
  have at: "maechul (rows df ! i) = Some hi" "maechul (rows df ! j) = Some lo"
    using i(3) j(3) len by simp_all
  have bound: "\<forall>k < length (rows df). \<forall>x. maechul (rows df ! k) = Some x \<longrightarrow> x \<le> hi \<and> lo \<le> x"
    using i(4) j(4) by simp
  have first: "\<forall>k < i. maechul (rows df ! k) \<noteq> Some hi" "\<forall>k < j. maechul (rows df ! k) \<noteq> Some lo"
    using i(5) j(5) len by simp_all
  have m3: "metrics_0003 df
             = ([TotalCard (py_int (nansum ?vals)), AvgCard,
                 MaxCard (LabelValue (wol (rows df ! i)) (Some hi)),
                 MinCard (LabelValue (wol (rows df ! j)) (Some lo)), Charts], None)"
    using any i(1) j(1) len at by (simp add: metrics_0003_def card_at_def)
  have mk: "metrics_kurly df
             = ([TotalCard (py_int (nansum ?vals)), AvgCard,
                 MaxCard (LabelValue (wol (rows df ! i)) (Some hi)),
                 MinCard (LabelValue (wol (rows df ! j)) (Some lo)), Charts], None)"
    using i(1) j(1) len at by (simp add: metrics_kurly_def card_at_def)
  from len at bound first m3 mk show ?thesis by (metis (no_types, lifting))
qed

theorem extreme_revenue_cards_witness:
  "(\<exists>r \<in> set (rows tie_df). maechul r \<noteq> None)
   \<and> map maechul (rows tie_df) = [Some 5, None, Some 7, Some 7, Some 5]
   \<and> metrics_0003 tie_df
       = ([TotalCard 24, AvgCard, MaxCard (LabelValue (Some (ascii ''2024-03'')) (Some 7)),
           MinCard (LabelValue (Some (ascii ''2024-01'')) (Some 5)), Charts], None)
   \<and> metrics_kurly tie_df = metrics_0003 tie_df"
proof -
  have h: "\<exists>r \<in> set (rows tie_df). maechul r \<noteq> None"
    by (simp add: tie_df_def)
  have "metrics_0003 tie_df
       = ([TotalCard 24, AvgCard, MaxCard (LabelValue (Some (ascii ''2024-03'')) (Some 7)),
           MinCard (LabelValue (Some (ascii ''2024-01'')) (Some 5)), Charts], None)"
    by (simp add: metrics_0003_def tie_df_def nansum_def py_int_def
      notna_any_def idxmax_def idxmin_def card_at_def)
  moreover have "map maechul (rows tie_df) = [Some 5, None, Some 7, Some 7, Some 5]"
    by (simp add: tie_df_def)
  moreover from extreme_revenue_cards [OF h] have "metrics_kurly tie_df = metrics_0003 tie_df"
    by blast
  ultimately show ?thesis using h by blast
qed


subsection \<open>Period labels\<close>

text \<open>
  Claim C7, as amended. \<^verbatim>\<open>enrich_df\<close> removes no row: the period labels of the result are the
  trimmed period labels of the upload, each as often as it occurs there. So the labels of the
  result are pairwise distinct exactly when the trimmed labels of the upload are. Trimming
  removes the white space of \<^verbatim>\<open>str.strip\<close> at both ends, a no-break space included, so two
  labels of the upload that differ in such white space only give the same label twice.
\<close>

theorem labels_are_trimmed_inputs:
  assumes "e = enrich_df_0003 \<or> e = enrich_df_kurly" and "e L df = Inr out"
  shows "mset (map wol (rows out)) = mset (map (\<lambda>raw. strip (astype_str L (r_wol raw))) (rows df))
       \<and> (distinct (map wol (rows out))
            \<longleftrightarrow> distinct (map (\<lambda>raw. strip (astype_str L (r_wol raw))) (rows df)))"
proof -
  obtain ps where ps: "mset ps = mset (rows df)"
    "rows out = map (enrich_row L (Jeunggam \<in> set (columns df))) ps"
    using enrich_df_perm [OF assms] by blast
  have "map wol (rows out) = map (\<lambda>raw. strip (astype_str L (r_wol raw))) ps"
    by (simp add: ps(2) enrich_row_fields)
  then have "mset (map wol (rows out))
             = image_mset (\<lambda>raw. strip (astype_str L (r_wol raw))) (mset ps)"
    by simp
  then have eq: "mset (map wol (rows out))
                 = mset (map (\<lambda>raw. strip (astype_str L (r_wol raw))) (rows df))"
    by (simp add: ps(1))
  from eq have "distinct (map wol (rows out))
                \<longleftrightarrow> distinct (map (\<lambda>raw. strip (astype_str L (r_wol raw))) (rows df))"
    by (rule mset_eq_imp_distinct_iff)
  with eq show ?thesis by blast
qed

text \<open>On the sample upload, and on an upload whose second label is the first with a no-break
  space behind it.\<close>

theorem labels_are_trimmed_inputs_witness:
  "enrich_df_0003 sample_lib sample_df = Inr sample_out
   \<and> map wol (rows sample_out)
       = [Some (ascii ''2024-01''), Some (ascii ''2024-03''), Some (ascii ''abc'')]
   \<and> map (\<lambda>raw. strip (astype_str sample_lib (r_wol raw))) (rows sample_df)
       = [Some (ascii ''2024-03''), Some (ascii ''abc''), Some (ascii ''2024-01'')]
   \<and> mset (map wol (rows sample_out))
       = mset (map (\<lambda>raw. strip (astype_str sample_lib (r_wol raw))) (rows sample_df))
   \<and> distinct (map wol (rows sample_out))
   \<and> enrich_df_0003 sample_lib nbsp_df = Inr dup_out
   \<and> map r_wol (rows nbsp_df) = [Some (ascii ''2024-01''), Some (ascii ''2024-01'' @ [160])]
   \<and> distinct (map r_wol (rows nbsp_df))
   \<and> \<not> distinct (map (\<lambda>raw. strip (astype_str sample_lib (r_wol raw))) (rows nbsp_df))
   \<and> \<not> distinct (map wol (rows dup_out))"
proof -
  have a: "mset (map wol (rows sample_out))
       = mset (map (\<lambda>raw. strip (astype_str sample_lib (r_wol raw))) (rows sample_df))"
    using labels_are_trimmed_inputs [of enrich_df_0003 sample_lib sample_df sample_out]
      sample_enriched
    by simp
  have b: "map (\<lambda>raw. strip (astype_str sample_lib (r_wol raw))) (rows sample_df)
       = [Some (ascii ''2024-03''), Some (ascii ''abc''), Some (ascii ''2024-01'')]"
    by (simp add: sample_df_def astype_str_def strip_samples)
  have c: "distinct (map wol (rows sample_out))"
    by (simp add: sample_out_def ascii_def)
  have d: "\<not> distinct (map (\<lambda>raw. strip (astype_str sample_lib (r_wol raw))) (rows nbsp_df))"
    by (simp add: nbsp_df_def astype_str_def strip_samples strip_no_break_space)
  have e: "\<not> distinct (map wol (rows dup_out))"
    using labels_are_trimmed_inputs [of enrich_df_0003 sample_lib nbsp_df dup_out]
      nbsp_enriched d
    by simp
  have f: "distinct (map r_wol (rows nbsp_df))"
    by (simp add: nbsp_df_def ascii_def)
  from a b c d e f sample_enriched nbsp_enriched show ?thesis
    by (simp add: sample_out_def nbsp_df_def)
qed

text \<open>Claim C7 as stated fails on an upload that has the same month twice: both rows are in
  the result.\<close>

theorem distinct_labels_counterexample:
  "enrich_df_0003 sample_lib dup_df = Inr dup_out
   \<and> map wol (rows dup_out) = [Some (ascii ''2024-01''), Some (ascii ''2024-01'')]
   \<and> \<not> distinct (map wol (rows dup_out))"
  using dup_enriched by (simp add: dup_out_def)


subsection \<open>An exception with all columns present\<close>

text \<open>
  Claim C8 fails in \<^verbatim>\<open>kurly_dash_2.py\<close> on a table that has the period, the revenue, the
  prior-revenue and the percent column, a percent cell with text that is not a number and an
  empty percent cell, both in rows whose prior revenue is 0: \<^verbatim>\<open>enrich_df\<close> raises \<^verbatim>\<open>ValueError\<close>
  at the back-fill assignment and the page shows the error box. \<^verbatim>\<open>enrich_df\<close> of \<^verbatim>\<open>0003.py\<close>
  returns a table for the same upload, with the two percents as 0.
\<close>

theorem kurly_raises_with_columns_present:
  "{Wol, Maechul, Jeonnyeon} \<subseteq> set (columns unparsed_pct_df)
   \<and> map r_jeonnyeon (rows unparsed_pct_df) = [Num 10, Num 0, Num 0]
   \<and> map r_jeunggam (rows unparsed_pct_df) = [Str (ascii ''7''), Str (ascii ''x''), Empty]
   \<and> to_numeric sample_lib (Str (ascii ''x'')) = None
   \<and> enrich_df_kurly sample_lib unparsed_pct_df = Inl ValueError
   \<and> script_kurly sample_lib unparsed_pct_df = ([ErrorBox ValueError], None)
   \<and> enrich_df_0003 sample_lib unparsed_pct_df = Inr empty_target_out
   \<and> map jeunggam (rows empty_target_out) = [Fin 7, Fin 0, Fin 0]"
  using unparsed_pct_enriched unparsed_pct_raises
  by (simp add: unparsed_pct_df_def empty_target_out_def script_kurly_def to_numeric_def
      sample_lib_def str2num_samples)


subsection \<open>The argument is left unchanged\<close>

text \<open>
  Claim C9. \<^verbatim>\<open>enrich_df\<close> changes no table that exists when it is called, the table it is given
  among them: after the call every old address holds what it held before, and the result is
  a new object. What the result holds is the value of the function of the section above on
  the content of the given table alone, so a second call on the same table returns an equal
  table (in another new object). This holds for both scripts. The \<^verbatim>\<open>st.cache_data\<close> decorator
  of the scripts is not part of the model.
\<close>

theorem enrich_df_leaves_input_unchanged:
  assumes "bf = backfill_0003 \<and> e = enrich_df_0003 \<or> bf = backfill_kurly \<and> e = enrich_df_kurly"
    and "a < length h" and "h ! a = Raw df"
    and "enrich_df_heap bf L a h = (res1, h1)"
    and "enrich_df_heap bf L a h1 = (res2, h2)"
  shows "take (length h) h1 = h \<and> h1 ! a = Raw df
       \<and> take (length h1) h2 = h1 \<and> h2 ! a = Raw df
       \<and> (case e L df of
            Inl err \<Rightarrow> res1 = Inl err \<and> res2 = Inl err
          | Inr out \<Rightarrow>
              (\<exists>c1 c2. res1 = Inr c1 \<and> res2 = Inr c2
                 \<and> length h \<le> c1 \<and> c1 < length h1 \<and> h1 ! c1 = Enriched out
                 \<and> length h1 \<le> c2 \<and> c2 < length h2 \<and> h2 ! c2 = Enriched out
                 \<and> h2 ! c1 = Enriched out))"
proof -
  note first = enrich_df_heap_call [OF assms(1,2,3,4)]
  then have t1: "take (length h) h1 = h" and l1: "length h < length h1" by simp_all
  have a1: "a < length h1" using assms(2) l1 by simp
  have "h1 ! a = take (length h) h1 ! a" using assms(2) by simp
  then have r1: "h1 ! a = Raw df" using t1 assms(3) by simp
  note second = enrich_df_heap_call [OF assms(1) a1 r1 assms(5)]
  then have t2: "take (length h1) h2 = h1" and l2: "length h1 < length h2" by simp_all
  have keep: "h2 ! n = h1 ! n" if "n < length h1" for n
  proof -
    have "h2 ! n = take (length h1) h2 ! n" using that by simp
    then show ?thesis using t2 by simp
  qed
  have r2: "h2 ! a = Raw df" using keep [OF a1] r1 by simp
  show ?thesis
  proof (cases "e L df")
    case (Inl err)
    with first second t1 r1 t2 r2 show ?thesis by simp
  next
    case (Inr out)
    with first obtain c1 where c1: "res1 = Inr c1" "length h \<le> c1" "c1 < length h1"
      "h1 ! c1 = Enriched out" by auto
    from Inr second obtain c2 where c2: "res2 = Inr c2" "length h1 \<le> c2" "c2 < length h2"
      "h2 ! c2 = Enriched out" by auto
    from c1 keep have "h2 ! c1 = Enriched out" by simp
    with c1 c2 t1 r1 t2 r2 Inr show ?thesis by simp
  qed
qed

theorem enrich_df_leaves_input_unchanged_witness:
  "(0::nat) < length [Raw sample_df] \<and> [Raw sample_df] ! 0 = Raw sample_df
   \<and> enrich_df_0003 sample_lib sample_df = Inr sample_out
   \<and> snd (enrich_df_heap backfill_0003 sample_lib 0 [Raw sample_df]) ! 0 = Raw sample_df
   \<and> take 1 (snd (enrich_df_heap backfill_0003 sample_lib 0 [Raw sample_df])) = [Raw sample_df]
   \<and> (\<exists>c1 c2.
         fst (enrich_df_heap backfill_0003 sample_lib 0 [Raw sample_df]) = Inr c1
       \<and> fst (enrich_df_heap backfill_0003 sample_lib 0
                (snd (enrich_df_heap backfill_0003 sample_lib 0 [Raw sample_df]))) = Inr c2
       \<and> snd (enrich_df_heap backfill_0003 sample_lib 0 [Raw sample_df]) ! c1
           = Enriched sample_out
       \<and> snd (enrich_df_heap backfill_0003 sample_lib 0
                (snd (enrich_df_heap backfill_0003 sample_lib 0 [Raw sample_df]))) ! c2
           = Enriched sample_out)"
proof -
  let ?h = "[Raw sample_df]"
  let ?call1 = "enrich_df_heap backfill_0003 sample_lib 0 ?h"
  let ?call2 = "enrich_df_heap backfill_0003 sample_lib 0 (snd ?call1)"
  have "take (length ?h) (snd ?call1) = ?h \<and> snd ?call1 ! 0 = Raw sample_df
       \<and> take (length (snd ?call1)) (snd ?call2) = snd ?call1 \<and> snd ?call2 ! 0 = Raw sample_df
       \<and> (case enrich_df_0003 sample_lib sample_df of
            Inl err \<Rightarrow> fst ?call1 = Inl err \<and> fst ?call2 = Inl err
          | Inr out \<Rightarrow>
              (\<exists>c1 c2. fst ?call1 = Inr c1 \<and> fst ?call2 = Inr c2
                 \<and> length ?h \<le> c1 \<and> c1 < length (snd ?call1) \<and> snd ?call1 ! c1 = Enriched out
                 \<and> length (snd ?call1) \<le> c2 \<and> c2 < length (snd ?call2)
                 \<and> snd ?call2 ! c2 = Enriched out
                 \<and> snd ?call2 ! c1 = Enriched out))"
    by (rule enrich_df_leaves_input_unchanged [where bf = backfill_0003 and e = enrich_df_0003
          and a = 0 and df = sample_df]) simp_all
  then show ?thesis
    using sample_enriched by auto
qed

subsection \<open>A table without any revenue\<close>

text \<open>
  Claim C10. On an enriched table in which every revenue is null, the cards of \<^verbatim>\<open>0003.py\<close>
  compute no index and show a dash for the highest and the lowest revenue, and the run goes
  on to the charts without an exception. The cards of \<^verbatim>\<open>kurly_dash_2.py\<close> call \<^verbatim>\<open>idxmax\<close>
  without a guard: the run ends with the exception after the first two cards, and neither the
  highest nor the lowest revenue is shown.
\<close>

theorem all_null_revenue_cards:
  assumes "\<forall>r \<in> set (rows df). maechul r = None"
  shows "metrics_0003 df = ([TotalCard 0, AvgCard, MaxCard Dash, MinCard Dash, Charts], None)
       \<and> idxmax (map maechul (rows df)) = Inl ValueError
       \<and> metrics_kurly df = ([TotalCard 0, AvgCard], Some ValueError)"
proof -
  let ?vals = "map maechul (rows df)"
  from assms have null: "\<forall>v \<in> set ?vals. v = None" by simp
  then have any: "\<not> notna_any ?vals"
    by (simp add: notna_any_def list_ex_iff)
  have total: "py_int (nansum ?vals) = 0"
    using null by (simp add: nansum_all_null py_int_def)
  have scan: "arg_scan better 0 None ?vals = None" for better
    using null by (rule arg_scan_all_null)
  have "metrics_0003 df = ([TotalCard 0, AvgCard, MaxCard Dash, MinCard Dash, Charts], None)"
    using any total by (simp add: metrics_0003_def)
  moreover have "idxmax ?vals = Inl ValueError"
    by (simp add: idxmax_def scan)
  moreover from this have "metrics_kurly df = ([TotalCard 0, AvgCard], Some ValueError)"
    using total by (simp add: metrics_kurly_def)
  ultimately show ?thesis by blast
qed

theorem all_null_revenue_cards_witness:
  "map maechul (rows null_revenue_df) = [None, None]
   \<and> metrics_0003 null_revenue_df = ([TotalCard 0, AvgCard, MaxCard Dash, MinCard Dash, Charts], None)
   \<and> idxmax (map maechul (rows null_revenue_df)) = Inl ValueError
   \<and> metrics_kurly null_revenue_df = ([TotalCard 0, AvgCard], Some ValueError)"
proof -
  have vals: "map maechul (rows null_revenue_df) = [None, None]"
    by (simp add: null_revenue_df_def)
  have h: "\<forall>r \<in> set (rows null_revenue_df). maechul r = None"
    by (simp add: null_revenue_df_def)
  show ?thesis using vals all_null_revenue_cards [OF h] by simp
qed

end
